theory Spec2Isabelle
  imports Main "HOL-Library.Word"
begin

section \<open>JavaScript values used by the storefront code\<close>

text \<open>
  A value that is either a string or absent (\<open>null\<close> / \<open>undefined\<close>) is a
  \<open>string option\<close>. JavaScript's truthiness test \<open>!x\<close> on such a value holds for the
  absent value and for the empty string.
\<close>

definition truthy :: "string option \<Rightarrow> bool" where
  "truthy x = (case x of None \<Rightarrow> False | Some s \<Rightarrow> s \<noteq> [])"

text \<open>\<open>a || b\<close> where \<open>b\<close> is a string: the left operand when it is truthy.\<close>

definition or_else :: "string option \<Rightarrow> string \<Rightarrow> string" where
  "or_else x d = (case x of None \<Rightarrow> d | Some s \<Rightarrow> if s = [] then d else s)"

text \<open>\<open>s.startsWith(p)\<close> and \<open>s.substring(n)\<close>.\<close>

definition startsWith :: "string \<Rightarrow> string \<Rightarrow> bool" where
  "startsWith s p = (take (length p) s = p)"

definition substring :: "string \<Rightarrow> nat \<Rightarrow> string" where
  "substring s n = drop n s"

text \<open>
  \<open>s.replace(pat, rep)\<close> with a string pattern: only the first occurrence of
  \<open>pat\<close> is replaced, wherever it stands in \<open>s\<close>.
\<close>

fun replace_first :: "string \<Rightarrow> string \<Rightarrow> string \<Rightarrow> string" where
  "replace_first [] pat rep = (if pat = [] then rep else [])"
| "replace_first (c # cs) pat rep =
     (if startsWith (c # cs) pat then rep @ drop (length pat) (c # cs)
      else c # replace_first cs pat rep)"

text \<open>Decimal rendering of numbers inside template strings and by \<open>toString()\<close>.\<close>

fun show_nat :: "nat \<Rightarrow> string" where
  "show_nat n =
     (if n < 10 then [''0123456789'' ! n]
      else show_nat (n div 10) @ [''0123456789'' ! (n mod 10)])"

declare show_nat.simps [simp del]

definition show_int :: "int \<Rightarrow> string" where
  "show_int i = (if i < 0 then CHR ''-'' # show_nat (nat (- i)) else show_nat (nat i))"

text \<open>
  \<open>BigInt(s)\<close> on a string: white space around the literal is dropped, the empty
  literal is zero, a literal is either an optionally signed run of decimal digits or an
  unsigned run of digits after one of the prefixes \<open>0x\<close>, \<open>0o\<close>, \<open>0b\<close> (in
  either case of the letter). Anything else raises \<open>SyntaxError\<close>, which is
  \<open>None\<close> here. The white space characters are those among the first 256 code points.
\<close>

definition is_space :: "char \<Rightarrow> bool" where
  "is_space c = ((of_char c :: nat) \<in> set [9, 10, 11, 12, 13, 32, 160])"

definition trim :: "string \<Rightarrow> string" where
  "trim s = rev (dropWhile is_space (rev (dropWhile is_space s)))"

definition digit_val :: "char \<Rightarrow> nat option" where
  "digit_val c =
     (let n = (of_char c :: nat) in
      if 48 \<le> n \<and> n \<le> 57 then Some (n - 48)
      else if 97 \<le> n \<and> n \<le> 102 then Some (n - 87)
      else if 65 \<le> n \<and> n \<le> 70 then Some (n - 55)
      else None)"

fun digits :: "nat \<Rightarrow> nat \<Rightarrow> string \<Rightarrow> nat option" where
  "digits base acc [] = Some acc"
| "digits base acc (c # cs) =
     (case digit_val c of
        None \<Rightarrow> None
      | Some v \<Rightarrow> if v < base then digits base (acc * base + v) cs else None)"

definition number :: "nat \<Rightarrow> string \<Rightarrow> int option" where
  "number base s = (if s = [] then None else map_option int (digits base 0 s))"

definition BigInt :: "string \<Rightarrow> int option" where
  "BigInt s =
     (let t = trim s in
      if t = [] then Some 0
      else if take 2 t = ''0x'' \<or> take 2 t = ''0X'' then number 16 (drop 2 t)
      else if take 2 t = ''0o'' \<or> take 2 t = ''0O'' then number 8 (drop 2 t)
      else if take 2 t = ''0b'' \<or> take 2 t = ''0B'' then number 2 (drop 2 t)
      else if hd t = CHR ''+'' then number 10 (tl t)
      else if hd t = CHR ''-'' then map_option uminus (number 10 (tl t))
      else number 10 t)"

text \<open>
  \<open>Math.floor(Date.now() / 1000)\<close>: the clock is read in milliseconds; \<open>div\<close> on
  \<open>int\<close> rounds towards minus infinity, as \<open>Math.floor\<close> does. Within one call of a
  function of the source every read of the clock is taken to return the same value.
\<close>

definition seconds :: "int \<Rightarrow> int" where
  "seconds now = now div 1000"

section \<open>Process configuration\<close>

record env =
  env_JWT_SECRET :: "string option"
  env_SHOPIFY_API_SECRET :: "string option"

text \<open>
  \<open>const JWT_SECRET = process.env.JWT_SECRET || 'your-jwt-secret-change-in-production'\<close>
\<close>

definition JWT_SECRET :: "env \<Rightarrow> string" where
  "JWT_SECRET e = or_else (env_JWT_SECRET e) ''your-jwt-secret-change-in-production''"

section \<open>The token library\<close>

text \<open>
  The claims of a storefront token, as \<open>generateStorefrontToken\<close> builds them.
\<close>

record payload =
  p_shop :: string
  p_customerId :: "string option"
  p_type :: string
  p_iat :: int
  p_exp :: int

text \<open>
  Tokens are produced and checked by the \<open>jsonwebtoken\<close> package with a shared-secret
  signature. The signature is treated symbolically: a token is either a string that is not
  a well-formed signed token, or a payload together with the secret it was signed under;
  a signature made under one secret verifies under that secret only.
\<close>

datatype token = Malformed string | Signed string payload

datatype jwt_error = JsonWebTokenError | TokenExpiredError

definition jwt_sign :: "payload \<Rightarrow> string \<Rightarrow> token" where
  "jwt_sign p secret = Signed secret p"

text \<open>
  \<open>jwt.verify(token, secret)\<close> throws on a malformed token, on a signature that does not
  verify, and when the clock has reached \<open>exp\<close> (the package compares
  \<open>clockTimestamp >= payload.exp\<close>); otherwise it returns the payload.
\<close>

definition jwt_verify :: "int \<Rightarrow> token \<Rightarrow> string \<Rightarrow> jwt_error + payload" where
  "jwt_verify now t secret =
     (case t of
        Malformed s \<Rightarrow> Inl JsonWebTokenError
      | Signed k p \<Rightarrow>
          if k \<noteq> secret then Inl JsonWebTokenError
          else if seconds now \<ge> p_exp p then Inl TokenExpiredError
          else Inr p)"

section \<open>proxy-auth.js: tokens and identity\<close>

text \<open>
  \<open>generateStorefrontToken(shop, customerId = null, expiresIn = 3600)\<close>. The default
  values of the source are passed explicitly by the callers below.
\<close>

definition generateStorefrontToken :: "env \<Rightarrow> int \<Rightarrow> string \<Rightarrow> string option \<Rightarrow> int \<Rightarrow> token" where
  "generateStorefrontToken e now shop customerId expiresIn =
     jwt_sign \<lparr> p_shop = shop, p_customerId = customerId, p_type = ''storefront'',
                p_iat = seconds now, p_exp = seconds now + expiresIn \<rparr> (JWT_SECRET e)"

text \<open>\<open>verifyStorefrontToken\<close>: any exception of the library becomes \<open>null\<close>.\<close>

definition verifyStorefrontToken :: "env \<Rightarrow> int \<Rightarrow> token \<Rightarrow> payload option" where
  "verifyStorefrontToken e now t =
     (case jwt_verify now t (JWT_SECRET e) of Inl err \<Rightarrow> None | Inr p \<Rightarrow> Some p)"

text \<open>\<open>generateGuestToken(shop, guestId)\<close>: the subject is \<open>guest_<guestId>\<close>, 24 hours.\<close>

definition generateGuestToken :: "env \<Rightarrow> int \<Rightarrow> string \<Rightarrow> string \<Rightarrow> token" where
  "generateGuestToken e now shop guestId =
     generateStorefrontToken e now shop (Some (''guest_'' @ guestId)) 86400"

record identity =
  isGuest :: bool
  key :: "string option"

text \<open>
  \<open>parseCustomerId(customerId)\<close>. The source's result object has the fields
  \<open>isGuest\<close> and \<open>customerId\<close>; the second is called \<open>key\<close> here.
\<close>

definition parseCustomerId :: "string option \<Rightarrow> identity" where
  "parseCustomerId customerId =
     (if \<not> truthy customerId then \<lparr> isGuest = True, key = None \<rparr>
      else if startsWith (the customerId) ''guest_''
        then \<lparr> isGuest = True, key = Some (substring (the customerId) 6) \<rparr>
      else \<lparr> isGuest = False, key = customerId \<rparr>)"

section \<open>session-manager.js: validation and refresh\<close>

record session =
  s_shop :: string
  s_customerId :: "string option"
  s_type :: string
  s_expiresAt :: int

text \<open>
  \<open>SessionManager.validateSession(token, shop)\<close>. \<open>expiresAt\<close> is the date
  \<open>new Date(decoded.exp * 1000)\<close>, kept as its millisecond value. Nothing inside the
  \<open>try\<close> block can throw, so the \<open>catch\<close> branch (which also returns \<open>null\<close>) has
  no separate case.
\<close>

definition validateSession :: "env \<Rightarrow> int \<Rightarrow> token \<Rightarrow> string \<Rightarrow> session option" where
  "validateSession e now t shop =
     (case verifyStorefrontToken e now t of
        None \<Rightarrow> None
      | Some decoded \<Rightarrow>
          if p_shop decoded \<noteq> shop then None
          else if p_exp decoded < seconds now then None
          else Some \<lparr> s_shop = p_shop decoded, s_customerId = p_customerId decoded,
                      s_type = p_type decoded, s_expiresAt = p_exp decoded * 1000 \<rparr>)"

record refreshed =
  r_success :: bool
  r_token :: token
  r_expiresIn :: int
  r_customerId :: "string option"

text \<open>
  \<open>SessionManager.refreshSession(token, shop)\<close>: the new token is made by
  \<open>generateStorefrontToken(shop, session.customerId)\<close>, that is with the default
  lifetime of 3600 seconds.
\<close>

definition refreshSession :: "env \<Rightarrow> int \<Rightarrow> token \<Rightarrow> string \<Rightarrow> refreshed option" where
  "refreshSession e now t shop =
     (case validateSession e now t shop of
        None \<Rightarrow> None
      | Some s \<Rightarrow>
          Some \<lparr> r_success = True,
                 r_token = generateStorefrontToken e now shop (s_customerId s) 3600,
                 r_expiresIn = 3600,
                 r_customerId = s_customerId s \<rparr>)"

section \<open>proxy-auth.js: request authentication\<close>

type_synonym byte = "8 word"

text \<open>
  Node's \<open>digest('base64')\<close> and \<open>Buffer.from(s, 'base64')\<close>. The encoder writes the
  standard alphabet with \<open>=\<close> padding. The decoder is lenient: it also reads the URL-safe
  characters \<open>-\<close> and \<open>_\<close>, passes over characters outside the alphabet, stops at the
  first \<open>=\<close>, and drops a final incomplete group of one character.
\<close>

definition enc :: "nat \<Rightarrow> char" where
  "enc i =
     (if i < 26 then char_of (65 + i)
      else if i < 52 then char_of (71 + i)
      else if i < 62 then char_of (i - 4)
      else if i = 62 then CHR ''+''
      else CHR ''/'')"

fun b64encode :: "byte list \<Rightarrow> string" where
  "b64encode [] = []"
| "b64encode [a] =
     [enc (unat a div 4), enc (unat a mod 4 * 16), CHR ''='', CHR ''='']"
| "b64encode [a, b] =
     [enc (unat a div 4), enc (unat a mod 4 * 16 + unat b div 16),
      enc (unat b mod 16 * 4), CHR ''='']"
| "b64encode (a # b # c # bs) =
     [enc (unat a div 4), enc (unat a mod 4 * 16 + unat b div 16),
      enc (unat b mod 16 * 4 + unat c div 64), enc (unat c mod 64)] @ b64encode bs"

definition unbase64 :: "char \<Rightarrow> nat option" where
  "unbase64 c =
     (let n = (of_char c :: nat) in
      if 65 \<le> n \<and> n \<le> 90 then Some (n - 65)
      else if 97 \<le> n \<and> n \<le> 122 then Some (n - 71)
      else if 48 \<le> n \<and> n \<le> 57 then Some (n + 4)
      else if n = 43 \<or> n = 45 then Some 62
      else if n = 47 \<or> n = 95 then Some 63
      else None)"

fun sextets :: "string \<Rightarrow> nat list" where
  "sextets [] = []"
| "sextets (c # cs) =
     (if c = CHR ''='' then []
      else case unbase64 c of None \<Rightarrow> sextets cs | Some v \<Rightarrow> v # sextets cs)"

fun group_bytes :: "nat list \<Rightarrow> byte list" where
  "group_bytes (s0 # s1 # s2 # s3 # r) =
     [of_nat (s0 * 4 + s1 div 16), of_nat (s1 mod 16 * 16 + s2 div 4),
      of_nat (s2 mod 4 * 64 + s3)] @ group_bytes r"
| "group_bytes [s0, s1, s2] =
     [of_nat (s0 * 4 + s1 div 16), of_nat (s1 mod 16 * 16 + s2 div 4)]"
| "group_bytes [s0, s1] = [of_nat (s0 * 4 + s1 div 16)]"
| "group_bytes [s0] = []"
| "group_bytes [] = []"

definition b64decode :: "string \<Rightarrow> byte list" where
  "b64decode s = group_bytes (sextets s)"

text \<open>
  Exceptions of the JavaScript runtime and of the storage client that the modelled code
  can raise.
\<close>

datatype js_error =
    SyntaxError | TypeError | ReferenceError | RangeError
  | UniqueConstraintError | ValueOutOfRangeError

text \<open>
  The part of an inbound proxy request that the authentication middleware reads.
  \<open>pr_rawBody\<close> is the buffer captured by the body parser (absent when no body was
  parsed); \<open>pr_bodyText\<close> is the UTF-8 text of \<open>JSON.stringify(req.body)\<close>.
\<close>

record proxy_request =
  pr_hmac :: "string option"
  pr_shop_domain :: "string option"
  pr_query_shop :: "string option"
  pr_body_shop :: "string option"
  pr_rawBody :: "byte list option"
  pr_bodyText :: "byte list"

text \<open>
  \<open>verifyAppProxyHMAC(req, shopifyApiSecret)\<close>. The keyed hash
  \<open>crypto.createHmac('sha256', secret)\<close> is the parameter \<open>H\<close>.
  \<open>crypto.timingSafeEqual\<close> throws a \<open>RangeError\<close> when its two buffers differ in
  length and compares them otherwise. A buffer is truthy even when it is empty, so
  \<open>req.rawBody || ...\<close> takes the captured buffer whenever there is one.
\<close>

definition timingSafeEqual :: "byte list \<Rightarrow> byte list \<Rightarrow> js_error + bool" where
  "timingSafeEqual a b = (if length a \<noteq> length b then Inl RangeError else Inr (a = b))"

definition verifyAppProxyHMAC ::
  "(string \<Rightarrow> byte list \<Rightarrow> byte list) \<Rightarrow> proxy_request \<Rightarrow> string \<Rightarrow> js_error + bool" where
  "verifyAppProxyHMAC H req shopifyApiSecret =
     (case pr_hmac req of
        None \<Rightarrow> Inr False
      | Some hmac \<Rightarrow>
          if hmac = [] then Inr False
          else
            let rawBody = (case pr_rawBody req of Some b \<Rightarrow> b | None \<Rightarrow> pr_bodyText req);
                expectedHmac = b64encode (H shopifyApiSecret rawBody)
            in timingSafeEqual (b64decode hmac) (b64decode expectedHmac))"

section \<open>Responses and control flow of a handler\<close>

record item_view =
  iv_id :: nat
  iv_productId :: string
  iv_variantId :: string
  iv_handle :: string

text \<open>The JSON bodies the modelled routes send, one constructor per shape.\<close>

datatype body =
    ErrorBody string
  | ConflictBody string item_view
  | ItemBody item_view int token
  | RemovedBody string token
  | NoMigrationBody string
  | MigratedBody string nat token

record response =
  status :: nat
  body :: body

text \<open>
  A step of a handler or middleware either throws, sends a response and returns, or goes
  on with a value.
\<close>

datatype 'a flow = Throws js_error | Returns response | Value 'a

text \<open>
  \<open>verifyAppProxyRequest(req, res, next)\<close>. \<open>Value shop\<close> stands for the call of
  \<open>next()\<close> with \<open>req.shop = shop\<close>. The middleware has no \<open>try\<close> block: an
  exception of \<open>verifyAppProxyHMAC\<close> leaves it as an exception.
\<close>

definition verifyAppProxyRequest ::
  "(string \<Rightarrow> byte list \<Rightarrow> byte list) \<Rightarrow> env \<Rightarrow> proxy_request \<Rightarrow> string flow" where
  "verifyAppProxyRequest H e req =
     (case env_SHOPIFY_API_SECRET e of
        None \<Rightarrow> Returns \<lparr> status = 500, body = ErrorBody ''Server configuration error'' \<rparr>
      | Some shopifyApiSecret \<Rightarrow>
          if shopifyApiSecret = []
          then Returns \<lparr> status = 500, body = ErrorBody ''Server configuration error'' \<rparr>
          else
            (case verifyAppProxyHMAC H req shopifyApiSecret of
               Inl err \<Rightarrow> Throws err
             | Inr ok \<Rightarrow>
                 if \<not> ok then Returns \<lparr> status = 401, body = ErrorBody ''Unauthorized'' \<rparr>
                 else
                   let shop = (if truthy (pr_shop_domain req) then pr_shop_domain req
                               else if truthy (pr_query_shop req) then pr_query_shop req
                               else pr_body_shop req)
                   in (case shop of
                         None \<Rightarrow> Returns \<lparr> status = 400, body = ErrorBody ''Shop domain required'' \<rparr>
                       | Some s \<Rightarrow>
                           if s = []
                           then Returns \<lparr> status = 400, body = ErrorBody ''Shop domain required'' \<rparr>
                           else Value s)))"


section \<open>The store\<close>

text \<open>
  The five tables of the migration script, as lists of rows in insertion order. Row
  identifiers are opaque strings made by the storage client; they are natural numbers
  here, handed out by the counter \<open>nextId\<close>. \<open>BIGINT\<close> columns are integers; only the
  columns that the modelled routes read or write are kept.
\<close>

type_synonym rowid = nat

record shop =
  shop_id :: rowid
  shop_domain :: string

record customer =
  cust_id :: rowid
  cust_shopId :: rowid
  cust_shopCustomerId :: int

record wishlist =
  wl_id :: rowid
  wl_shopId :: rowid
  wl_customerId :: "rowid option"
  wl_shareUUID :: string

record wishlistItem =
  item_id :: rowid
  item_wishlistId :: rowid
  item_productId :: int
  item_variantId :: int
  item_handle :: string
  item_createdAt :: int

datatype event_payload =
    AddPayload string string string bool
  | RemovePayload string string string bool
  | MigratePayload nat string

record event =
  ev_id :: rowid
  ev_shopId :: rowid
  ev_customerId :: "rowid option"
  ev_type :: string
  ev_payload :: event_payload

record db =
  shops :: "shop list"
  customers :: "customer list"
  wishlists :: "wishlist list"
  items :: "wishlistItem list"
  events :: "event list"
  nextId :: nat

text \<open>A value bound to a \<open>BIGINT\<close> column has to fit 64 signed bits.\<close>

definition int8 :: "int \<Rightarrow> bool" where
  "int8 n = (- (2 ^ 63) \<le> n \<and> n < 2 ^ 63)"

text \<open>Queries. \<open>findFirst\<close> and \<open>findUnique\<close> return the first row that matches.\<close>

definition shop_findUnique :: "db \<Rightarrow> string \<Rightarrow> shop option" where
  "shop_findUnique d domain = find (\<lambda>s. shop_domain s = domain) (shops d)"

definition customer_findFirst :: "db \<Rightarrow> rowid \<Rightarrow> int \<Rightarrow> customer option" where
  "customer_findFirst d shopId shopCustomerId =
     find (\<lambda>c. cust_shopId c = shopId \<and> cust_shopCustomerId c = shopCustomerId) (customers d)"

definition guest_wishlist_findFirst :: "db \<Rightarrow> rowid \<Rightarrow> string \<Rightarrow> wishlist option" where
  "guest_wishlist_findFirst d shopId shareUUID =
     find (\<lambda>w. wl_shopId w = shopId \<and> wl_customerId w = None \<and> wl_shareUUID w = shareUUID)
       (wishlists d)"

definition wishlist_findUnique :: "db \<Rightarrow> rowid \<Rightarrow> rowid \<Rightarrow> wishlist option" where
  "wishlist_findUnique d shopId customerId =
     find (\<lambda>w. wl_shopId w = shopId \<and> wl_customerId w = Some customerId) (wishlists d)"

definition wishlist_by_id :: "db \<Rightarrow> rowid \<Rightarrow> wishlist option" where
  "wishlist_by_id d wid = find (\<lambda>w. wl_id w = wid) (wishlists d)"

definition wishlist_items :: "db \<Rightarrow> rowid \<Rightarrow> wishlistItem list" where
  "wishlist_items d wid = filter (\<lambda>i. item_wishlistId i = wid) (items d)"

definition item_findFirst :: "db \<Rightarrow> rowid \<Rightarrow> int \<Rightarrow> int \<Rightarrow> wishlistItem option" where
  "item_findFirst d wid productId variantId =
     find (\<lambda>i. item_wishlistId i = wid \<and> item_productId i = productId
               \<and> item_variantId i = variantId) (items d)"

definition item_findUnique :: "db \<Rightarrow> rowid \<Rightarrow> wishlistItem option" where
  "item_findUnique d iid = find (\<lambda>i. item_id i = iid) (items d)"

text \<open>
  \<open>prisma.wishlist.create\<close>: the unique indexes on \<open>shareUUID\<close> and on
  \<open>(shopId, customerId)\<close> reject the row; the second index does not constrain rows whose
  \<open>customerId\<close> is null.
\<close>

definition wishlist_create ::
  "db \<Rightarrow> rowid \<Rightarrow> rowid option \<Rightarrow> string \<Rightarrow> js_error + (wishlist \<times> db)" where
  "wishlist_create d shopId customerId shareUUID =
     (if list_ex (\<lambda>w. wl_shareUUID w = shareUUID) (wishlists d) then Inl UniqueConstraintError
      else if customerId \<noteq> None
              \<and> list_ex (\<lambda>w. wl_shopId w = shopId \<and> wl_customerId w = customerId) (wishlists d)
        then Inl UniqueConstraintError
      else
        let w = \<lparr> wl_id = nextId d, wl_shopId = shopId, wl_customerId = customerId,
                   wl_shareUUID = shareUUID \<rparr>
        in Inr (w, d\<lparr> wishlists := wishlists d @ [w], nextId := Suc (nextId d) \<rparr>))"

text \<open>
  \<open>prisma.wishlistItem.create\<close>: the item table has no unique index besides its key.
  The wishlist it refers to has just been read or created by the caller.
\<close>

definition item_create ::
  "db \<Rightarrow> int \<Rightarrow> rowid \<Rightarrow> int \<Rightarrow> int \<Rightarrow> string \<Rightarrow> wishlistItem \<times> db" where
  "item_create d now wid productId variantId handle =
     (let i = \<lparr> item_id = nextId d, item_wishlistId = wid, item_productId = productId,
                item_variantId = variantId, item_handle = handle, item_createdAt = now \<rparr>
      in (i, d\<lparr> items := items d @ [i], nextId := Suc (nextId d) \<rparr>))"

definition item_delete :: "db \<Rightarrow> rowid \<Rightarrow> db" where
  "item_delete d iid = d\<lparr> items := filter (\<lambda>i. item_id i \<noteq> iid) (items d) \<rparr>"

text \<open>\<open>prisma.wishlist.delete\<close>: the item rows of the wishlist go with it (cascade).\<close>

definition wishlist_delete :: "db \<Rightarrow> rowid \<Rightarrow> db" where
  "wishlist_delete d wid =
     d\<lparr> wishlists := filter (\<lambda>w. wl_id w \<noteq> wid) (wishlists d),
        items := filter (\<lambda>i. item_wishlistId i \<noteq> wid) (items d) \<rparr>"

definition event_create ::
  "db \<Rightarrow> rowid \<Rightarrow> rowid option \<Rightarrow> string \<Rightarrow> event_payload \<Rightarrow> db" where
  "event_create d shopId customerId type payload =
     d\<lparr> events := events d @ [\<lparr> ev_id = nextId d, ev_shopId = shopId,
                                ev_customerId = customerId, ev_type = type,
                                ev_payload = payload \<rparr>],
        nextId := Suc (nextId d) \<rparr>"

text \<open>
  The uniqueness that the storage layer maintains: keys of wishlists, share identifiers,
  and one wishlist per shop and customer.
\<close>

definition wf_db :: "db \<Rightarrow> bool" where
  "wf_db d =
     (distinct (map wl_id (wishlists d))
      \<and> distinct (map wl_shareUUID (wishlists d))
      \<and> distinct (map (\<lambda>w. (wl_shopId w, wl_customerId w))
                   (filter (\<lambda>w. wl_customerId w \<noteq> None) (wishlists d))))"

section \<open>wishlist-proxy.js: the routes\<close>

text \<open>
  What a route reads of the request once the two middlewares have run: \<open>req.shop\<close>,
  \<open>req.customerId\<close>, the fields of the JSON body (sent as strings) and the path
  parameter \<open>:id\<close>.
\<close>

record request =
  req_shop :: string
  req_customerId :: "string option"
  body_productId :: "string option"
  body_variantId :: "string option"
  body_handle :: "string option"
  body_guestToken :: "string option"
  param_id :: rowid

definition respond :: "nat \<Rightarrow> body \<Rightarrow> response" where
  "respond code b = \<lparr> status = code, body = b \<rparr>"

text \<open>
  \<open>prisma.customer.findFirst({ where: { shopId, shopCustomerId: BigInt(parsedCustomerId) } })\<close>:
  \<open>BigInt(null)\<close> is a \<open>TypeError\<close>, a string that is no integer literal a
  \<open>SyntaxError\<close>, and the query refuses a number outside the column's range.
\<close>

definition find_customer :: "db \<Rightarrow> shop \<Rightarrow> string option \<Rightarrow> js_error + customer option" where
  "find_customer d shopRecord parsedCustomerId =
     (case parsedCustomerId of
        None \<Rightarrow> Inl TypeError
      | Some k \<Rightarrow>
          (case BigInt k of
             None \<Rightarrow> Inl SyntaxError
           | Some n \<Rightarrow>
               if \<not> int8 n then Inl ValueOutOfRangeError
               else Inr (customer_findFirst d (shop_id shopRecord) n)))"

text \<open>
  \<open>try { ... } catch (error) { res.status(500).json({ error: 'Internal server error' }) }\<close>
  around the body of every route. The store keeps what was written before the exception:
  no transaction spans a route.
\<close>

definition catch500 :: "response flow \<times> db \<Rightarrow> response \<times> db" where
  "catch500 r =
     (case r of
        (Throws err, d) \<Rightarrow> (respond 500 (ErrorBody ''Internal server error''), d)
      | (Returns resp, d) \<Rightarrow> (resp, d)
      | (Value resp, d) \<Rightarrow> (resp, d))"


definition view :: "wishlistItem \<Rightarrow> item_view" where
  "view i = \<lparr> iv_id = item_id i, iv_productId = show_int (item_productId i),
              iv_variantId = show_int (item_variantId i), iv_handle = item_handle i \<rparr>"

subsection \<open>POST /items\<close>

text \<open>
  The wishlist of the caller, looked up and created when there is none. A guest without
  a key is looked up under \<open>'default-guest'\<close> but created under \<open>guest_<clock>\<close>;
  a registered caller needs a customer row.
\<close>

definition caller_wishlist :: "int \<Rightarrow> identity \<Rightarrow> shop \<Rightarrow> db \<Rightarrow> wishlist flow \<times> db" where
  "caller_wishlist now ident shopRecord d =
     (if isGuest ident then
        (case guest_wishlist_findFirst d (shop_id shopRecord)
                (or_else (key ident) ''default-guest'') of
           Some w \<Rightarrow> (Value w, d)
         | None \<Rightarrow>
             (case wishlist_create d (shop_id shopRecord) None
                     (or_else (key ident) (''guest_'' @ show_int now)) of
                Inl err \<Rightarrow> (Throws err, d)
              | Inr (w, d') \<Rightarrow> (Value w, d')))
      else
        (case find_customer d shopRecord (key ident) of
           Inl err \<Rightarrow> (Throws err, d)
         | Inr None \<Rightarrow> (Returns (respond 404 (ErrorBody ''Customer not found'')), d)
         | Inr (Some customer) \<Rightarrow>
             (case wishlist_findUnique d (shop_id shopRecord) (cust_id customer) of
                Some w \<Rightarrow> (Value w, d)
              | None \<Rightarrow>
                  (case wishlist_create d (shop_id shopRecord) (Some (cust_id customer))
                          (''customer_'' @ show_nat (cust_id customer) @ ''_'' @ show_int now) of
                     Inl err \<Rightarrow> (Throws err, d)
                   | Inr (w, d') \<Rightarrow> (Value w, d')))))"

text \<open>
  From the existence check to the response. The event is written with
  \<open>customerId: isGuest ? null : customer?.id\<close>, but \<open>customer\<close> is declared by
  \<open>const\<close> inside the \<open>else\<close> block above and is not in scope here: for a
  registered caller the expression raises \<open>ReferenceError\<close>, after the item row has been
  written.
\<close>

definition add_item ::
  "env \<Rightarrow> int \<Rightarrow> request \<Rightarrow> identity \<Rightarrow> shop \<Rightarrow> wishlist \<Rightarrow> string \<Rightarrow> string \<Rightarrow> string
     \<Rightarrow> db \<Rightarrow> response flow \<times> db" where
  "add_item e now req ident shopRecord w productId variantId handle d =
     (case BigInt productId of
        None \<Rightarrow> (Throws SyntaxError, d)
      | Some pid \<Rightarrow>
     (case BigInt variantId of
        None \<Rightarrow> (Throws SyntaxError, d)
      | Some vid \<Rightarrow>
          if \<not> (int8 pid \<and> int8 vid) then (Throws ValueOutOfRangeError, d)
          else
            (case item_findFirst d (wl_id w) pid vid of
               Some existingItem \<Rightarrow>
                 (Returns (respond 409 (ConflictBody ''Item already in wishlist''
                                          (view existingItem))), d)
             | None \<Rightarrow>
                 let (wishlistItem, d1) = item_create d now (wl_id w) pid vid handle
                 in if isGuest ident then
                      let d2 = event_create d1 (shop_id shopRecord) None ''add''
                                 (AddPayload productId variantId handle True);
                          token = generateStorefrontToken e now (req_shop req)
                                    (req_customerId req) 3600
                      in (Returns (respond 201 (ItemBody (view wishlistItem)
                                     (item_createdAt wishlistItem) token)), d2)
                    else (Throws ReferenceError, d1))))"

definition post_items_try :: "env \<Rightarrow> int \<Rightarrow> request \<Rightarrow> db \<Rightarrow> response flow \<times> db" where
  "post_items_try e now req d =
     (case (body_productId req, body_variantId req, body_handle req) of
        (Some productId, Some variantId, Some handle) \<Rightarrow>
          if productId = [] \<or> variantId = [] \<or> handle = []
          then (Returns (respond 400
                  (ErrorBody ''Missing required fields: productId, variantId, handle'')), d)
          else
            let ident = parseCustomerId (req_customerId req)
            in (case shop_findUnique d (req_shop req) of
                  None \<Rightarrow> (Returns (respond 404 (ErrorBody ''Shop not found'')), d)
                | Some shopRecord \<Rightarrow>
                    (case caller_wishlist now ident shopRecord d of
                       (Throws err, d') \<Rightarrow> (Throws err, d')
                     | (Returns resp, d') \<Rightarrow> (Returns resp, d')
                     | (Value w, d') \<Rightarrow>
                         add_item e now req ident shopRecord w productId variantId handle d'))
      | _ \<Rightarrow> (Returns (respond 400
                 (ErrorBody ''Missing required fields: productId, variantId, handle'')), d))"

definition post_items :: "env \<Rightarrow> int \<Rightarrow> request \<Rightarrow> db \<Rightarrow> response \<times> db" where
  "post_items e now req d = catch500 (post_items_try e now req d)"

subsection \<open>DELETE /items/:id\<close>

text \<open>
  The ownership check of the route. As in \<open>POST /items\<close>, \<open>customer\<close> is declared
  inside the \<open>if (!isGuest)\<close> block, and the later \<open>customer?.id\<close> of the event raises
  \<open>ReferenceError\<close> for a registered caller, after the item row has been deleted.
  \<open>include: { wishlist: true }\<close> joins the wishlist row of the item, which the foreign
  key guarantees; reading a field of a missing one would be a \<open>TypeError\<close>.
\<close>

definition owner_check :: "identity \<Rightarrow> shop \<Rightarrow> wishlist \<Rightarrow> db \<Rightarrow> unit flow" where
  "owner_check ident shopRecord w d =
     (if \<not> isGuest ident then
        (case find_customer d shopRecord (key ident) of
           Inl err \<Rightarrow> Throws err
         | Inr None \<Rightarrow> Returns (respond 403 (ErrorBody ''Access denied''))
         | Inr (Some customer) \<Rightarrow>
             if wl_customerId w \<noteq> Some (cust_id customer)
             then Returns (respond 403 (ErrorBody ''Access denied''))
             else Value ())
      else
        if wl_customerId w \<noteq> None
        then Returns (respond 403 (ErrorBody ''Access denied''))
        else Value ())"

definition delete_item_try :: "env \<Rightarrow> int \<Rightarrow> request \<Rightarrow> db \<Rightarrow> response flow \<times> db" where
  "delete_item_try e now req d =
     (let ident = parseCustomerId (req_customerId req)
      in case shop_findUnique d (req_shop req) of
           None \<Rightarrow> (Returns (respond 404 (ErrorBody ''Shop not found'')), d)
         | Some shopRecord \<Rightarrow>
             (case item_findUnique d (param_id req) of
                None \<Rightarrow> (Returns (respond 404 (ErrorBody ''Item not found'')), d)
              | Some wishlistItem \<Rightarrow>
                  (case wishlist_by_id d (item_wishlistId wishlistItem) of
                     None \<Rightarrow> (Throws TypeError, d)
                   | Some w \<Rightarrow>
                       if wl_shopId w \<noteq> shop_id shopRecord
                       then (Returns (respond 403 (ErrorBody ''Access denied'')), d)
                       else
                         (case owner_check ident shopRecord w d of
                            Throws err \<Rightarrow> (Throws err, d)
                          | Returns resp \<Rightarrow> (Returns resp, d)
                          | Value u \<Rightarrow>
                              let d1 = item_delete d (param_id req)
                              in if isGuest ident then
                                   let d2 = event_create d1 (shop_id shopRecord) None ''remove''
                                              (RemovePayload
                                                 (show_int (item_productId wishlistItem))
                                                 (show_int (item_variantId wishlistItem))
                                                 (item_handle wishlistItem) True);
                                       token = generateStorefrontToken e now (req_shop req)
                                                 (req_customerId req) 3600
                                   in (Returns (respond 200
                                          (RemovedBody ''Item removed from wishlist'' token)), d2)
                                 else (Throws ReferenceError, d1)))))"

definition delete_item :: "env \<Rightarrow> int \<Rightarrow> request \<Rightarrow> db \<Rightarrow> response \<times> db" where
  "delete_item e now req d = catch500 (delete_item_try e now req d)"

subsection \<open>POST /migrate\<close>

text \<open>
  The loop over the items of the guest wishlist: an item whose
  \<open>(productId, variantId)\<close> is already in the customer's wishlist is passed over, any
  other is created there and counted. Each check reads the store as the earlier
  iterations left it.
\<close>

fun migrate_items :: "int \<Rightarrow> rowid \<Rightarrow> wishlistItem list \<Rightarrow> nat \<Rightarrow> db \<Rightarrow> nat \<times> db" where
  "migrate_items now cw [] migratedCount d = (migratedCount, d)"
| "migrate_items now cw (item # rest) migratedCount d =
     (case item_findFirst d cw (item_productId item) (item_variantId item) of
        Some existingItem \<Rightarrow> migrate_items now cw rest migratedCount d
      | None \<Rightarrow>
          migrate_items now cw rest (Suc migratedCount)
            (snd (item_create d now cw (item_productId item) (item_variantId item)
                    (item_handle item))))"

text \<open>The customer's wishlist, looked up by \<open>(shopId, customerId)\<close> and created if absent.\<close>

definition customer_wishlist ::
  "int \<Rightarrow> shop \<Rightarrow> customer \<Rightarrow> db \<Rightarrow> js_error + (wishlist \<times> db)" where
  "customer_wishlist now shopRecord customer d =
     (case wishlist_findUnique d (shop_id shopRecord) (cust_id customer) of
        Some w \<Rightarrow> Inr (w, d)
      | None \<Rightarrow>
          wishlist_create d (shop_id shopRecord) (Some (cust_id customer))
            (''customer_'' @ show_nat (cust_id customer) @ ''_'' @ show_int now))"

text \<open>
  From the guest key to the response, for a caller whose customer row has been found.
  Here \<open>customer\<close> is declared in the scope of the whole \<open>try\<close> block.
\<close>

definition merge_guest ::
  "env \<Rightarrow> int \<Rightarrow> request \<Rightarrow> shop \<Rightarrow> customer \<Rightarrow> string \<Rightarrow> db \<Rightarrow> response flow \<times> db" where
  "merge_guest e now req shopRecord customer guestToken d =
     (let guestId = replace_first guestToken ''guest_'' [];
          guestWishlist = guest_wishlist_findFirst d (shop_id shopRecord) guestId
      in case guestWishlist of
           None \<Rightarrow> (Returns (respond 200 (NoMigrationBody ''No guest wishlist to migrate'')), d)
         | Some gw \<Rightarrow>
             let guestItems = wishlist_items d (wl_id gw)
             in if guestItems = []
                then (Returns (respond 200 (NoMigrationBody ''No guest wishlist to migrate'')), d)
                else
                  (case customer_wishlist now shopRecord customer d of
                     Inl err \<Rightarrow> (Throws err, d)
                   | Inr (customerWishlist, d1) \<Rightarrow>
                       let (migratedCount, d2) =
                             migrate_items now (wl_id customerWishlist) guestItems 0 d1;
                           d3 = wishlist_delete d2 (wl_id gw);
                           d4 = event_create d3 (shop_id shopRecord) (Some (cust_id customer))
                                  ''migrate'' (MigratePayload migratedCount guestId);
                           token = generateStorefrontToken e now (req_shop req)
                                     (req_customerId req) 3600
                       in (Returns (respond 200
                              (MigratedBody
                                 (''Migrated '' @ show_nat migratedCount
                                    @ '' items to your account'')
                                 migratedCount token)), d4)))"

definition migrate_try :: "env \<Rightarrow> int \<Rightarrow> request \<Rightarrow> db \<Rightarrow> response flow \<times> db" where
  "migrate_try e now req d =
     (case body_guestToken req of
        None \<Rightarrow> (Returns (respond 400 (ErrorBody ''Guest token required'')), d)
      | Some guestToken \<Rightarrow>
          if guestToken = []
          then (Returns (respond 400 (ErrorBody ''Guest token required'')), d)
          else
            let ident = parseCustomerId (req_customerId req)
            in if isGuest ident
               then (Returns (respond 400
                       (ErrorBody ''Must be logged in to migrate wishlist'')), d)
               else
                 (case shop_findUnique d (req_shop req) of
                    None \<Rightarrow> (Returns (respond 404 (ErrorBody ''Shop not found'')), d)
                  | Some shopRecord \<Rightarrow>
                      (case find_customer d shopRecord (key ident) of
                         Inl err \<Rightarrow> (Throws err, d)
                       | Inr None \<Rightarrow>
                           (Returns (respond 404 (ErrorBody ''Customer not found'')), d)
                       | Inr (Some customer) \<Rightarrow>
                           merge_guest e now req shopRecord customer guestToken d)))"

definition migrate :: "env \<Rightarrow> int \<Rightarrow> request \<Rightarrow> db \<Rightarrow> response \<times> db" where
  "migrate e now req d = catch500 (migrate_try e now req d)"

text \<open>What the properties below observe of a store and of a response.\<close>

definition item_key :: "wishlistItem \<Rightarrow> int \<times> int" where
  "item_key i = (item_productId i, item_variantId i)"

definition wishlist_keys :: "db \<Rightarrow> rowid \<Rightarrow> (int \<times> int) set" where
  "wishlist_keys d wid = set (map item_key (wishlist_items d wid))"

definition migratedCount_of :: "response \<Rightarrow> nat option" where
  "migratedCount_of r = (case body r of MigratedBody m n t \<Rightarrow> Some n | _ \<Rightarrow> None)"

definition lifetime :: "token \<Rightarrow> int option" where
  "lifetime t = (case t of Malformed s \<Rightarrow> None | Signed k p \<Rightarrow> Some (p_exp p - p_iat p))"


section \<open>Properties of the identity resolver and of the token functions\<close>

text \<open>
  Claim C8, as the code has it. \<open>parseCustomerId\<close> is a total function whose result is
  one of the two variants. An absent identifier resolves to a guest without key, and so
  does the empty string, which the test \<open>!customerId\<close> does not tell from an absent
  one. A string \<open>guest_<suffix>\<close> resolves to the guest with key \<open><suffix>\<close>. Every
  other non-empty string resolves to the registered identity whose key is the string.
\<close>

theorem parseCustomerId_classifies:
  "parseCustomerId None = \<lparr> isGuest = True, key = None \<rparr>
   \<and> parseCustomerId (Some []) = \<lparr> isGuest = True, key = None \<rparr>
   \<and> parseCustomerId (Some (''guest_'' @ suffix)) = \<lparr> isGuest = True, key = Some suffix \<rparr>
   \<and> (s \<noteq> [] \<and> \<not> startsWith s ''guest_''
        \<longrightarrow> parseCustomerId (Some s) = \<lparr> isGuest = False, key = Some s \<rparr>)"
  by (simp add: parseCustomerId_def truthy_def startsWith_def substring_def)

theorem parseCustomerId_classifies_witness:
  "''12345'' \<noteq> [] \<and> \<not> startsWith ''12345'' ''guest_''
   \<and> parseCustomerId (Some ''12345'') = \<lparr> isGuest = False, key = Some ''12345'' \<rparr>
   \<and> parseCustomerId (Some ''guest_abc'') = \<lparr> isGuest = True, key = Some ''abc'' \<rparr>"
proof -
  have h: "''12345'' \<noteq> [] \<and> \<not> startsWith ''12345'' ''guest_''"
    by (simp add: startsWith_def)
  show ?thesis
    using h parseCustomerId_classifies [of "''abc''" "''12345''"] by simp
qed

text \<open>
  The empty string is a string that does not have the form \<open>guest_<suffix>\<close>, and it
  does not resolve to a registered identity.
\<close>

theorem parseCustomerId_empty_counterexample:
  "\<not> startsWith [] ''guest_''
   \<and> parseCustomerId (Some []) \<noteq> \<lparr> isGuest = False, key = Some [] \<rparr>"
  by (simp add: parseCustomerId_def truthy_def startsWith_def)

text \<open>
  Claim C7. A token made by \<open>generateStorefrontToken\<close> at clock \<open>t1\<close> and verified by
  \<open>verifyStorefrontToken\<close> at clock \<open>t2\<close> (both in milliseconds, same configuration)
  gives back the claims it was made from when \<open>t2\<close> is strictly before the expiry
  instant, and is refused from the expiry instant on.
\<close>

theorem verify_sign_roundtrip:
  "(t2 < 1000 * (seconds t1 + expiresIn)
      \<longrightarrow> verifyStorefrontToken e t2 (generateStorefrontToken e t1 shop customerId expiresIn)
          = Some \<lparr> p_shop = shop, p_customerId = customerId, p_type = ''storefront'',
                   p_iat = seconds t1, p_exp = seconds t1 + expiresIn \<rparr>)
   \<and> (1000 * (seconds t1 + expiresIn) \<le> t2
      \<longrightarrow> verifyStorefrontToken e t2 (generateStorefrontToken e t1 shop customerId expiresIn)
          = None)"
  by (auto simp: verifyStorefrontToken_def generateStorefrontToken_def jwt_sign_def
        jwt_verify_def seconds_def)

theorem verify_sign_roundtrip_witness:
  "(6000::int) < 1000 * (seconds 5000 + 3600)
   \<and> verifyStorefrontToken \<lparr> env_JWT_SECRET = Some ''k'', env_SHOPIFY_API_SECRET = None \<rparr> 6000
        (generateStorefrontToken \<lparr> env_JWT_SECRET = Some ''k'', env_SHOPIFY_API_SECRET = None \<rparr>
           5000 ''a.example'' (Some ''12345'') 3600)
      = Some \<lparr> p_shop = ''a.example'', p_customerId = Some ''12345'', p_type = ''storefront'',
               p_iat = 5, p_exp = 3605 \<rparr>
   \<and> 1000 * (seconds 5000 + 3600) \<le> (3605000::int)
   \<and> verifyStorefrontToken \<lparr> env_JWT_SECRET = Some ''k'', env_SHOPIFY_API_SECRET = None \<rparr> 3605000
        (generateStorefrontToken \<lparr> env_JWT_SECRET = Some ''k'', env_SHOPIFY_API_SECRET = None \<rparr>
           5000 ''a.example'' (Some ''12345'') 3600)
      = None"
proof -
  have h1: "(6000::int) < 1000 * (seconds 5000 + 3600)"
    and h2: "1000 * (seconds 5000 + 3600) \<le> (3605000::int)"
    and s: "seconds 5000 = 5"
    by (simp_all add: seconds_def)
  show ?thesis
    using h1 h2 s
      verify_sign_roundtrip [of 6000 5000 3600
        "\<lparr> env_JWT_SECRET = Some ''k'', env_SHOPIFY_API_SECRET = None \<rparr>"
        "''a.example''" "Some ''12345''"]
      verify_sign_roundtrip [of 3605000 5000 3600
        "\<lparr> env_JWT_SECRET = Some ''k'', env_SHOPIFY_API_SECRET = None \<rparr>"
        "''a.example''" "Some ''12345''"]
    by simp
qed


text \<open>
  Claim C4. A token issued for shop \<open>X\<close> is refused by \<open>validateSession\<close> when it is
  presented against another shop \<open>Y\<close>; it is refused against any shop from its expiry
  instant on; before that instant and against its own shop the decoded session is
  returned.
\<close>

theorem validateSession_isolation:
  "(X \<noteq> Y
      \<longrightarrow> validateSession e now (generateStorefrontToken e t1 X customerId expiresIn) Y = None)
   \<and> (1000 * (seconds t1 + expiresIn) \<le> now
      \<longrightarrow> validateSession e now (generateStorefrontToken e t1 X customerId expiresIn) Y = None)
   \<and> (now < 1000 * (seconds t1 + expiresIn)
      \<longrightarrow> validateSession e now (generateStorefrontToken e t1 X customerId expiresIn) X
          = Some \<lparr> s_shop = X, s_customerId = customerId, s_type = ''storefront'',
                   s_expiresAt = (seconds t1 + expiresIn) * 1000 \<rparr>)"
  by (auto simp: validateSession_def verifyStorefrontToken_def generateStorefrontToken_def
        jwt_sign_def jwt_verify_def seconds_def)

theorem validateSession_isolation_witness:
  "''x.example'' \<noteq> ''y.example''
   \<and> validateSession \<lparr> env_JWT_SECRET = Some ''k'', env_SHOPIFY_API_SECRET = None \<rparr> 6000
        (generateStorefrontToken \<lparr> env_JWT_SECRET = Some ''k'', env_SHOPIFY_API_SECRET = None \<rparr>
           5000 ''x.example'' (Some ''12345'') 3600) ''y.example'' = None
   \<and> (6000::int) < 1000 * (seconds 5000 + 3600)
   \<and> validateSession \<lparr> env_JWT_SECRET = Some ''k'', env_SHOPIFY_API_SECRET = None \<rparr> 6000
        (generateStorefrontToken \<lparr> env_JWT_SECRET = Some ''k'', env_SHOPIFY_API_SECRET = None \<rparr>
           5000 ''x.example'' (Some ''12345'') 3600) ''x.example''
      = Some \<lparr> s_shop = ''x.example'', s_customerId = Some ''12345'', s_type = ''storefront'',
               s_expiresAt = 3605000 \<rparr>
   \<and> 1000 * (seconds 5000 + 3600) \<le> (3605000::int)
   \<and> validateSession \<lparr> env_JWT_SECRET = Some ''k'', env_SHOPIFY_API_SECRET = None \<rparr> 3605000
        (generateStorefrontToken \<lparr> env_JWT_SECRET = Some ''k'', env_SHOPIFY_API_SECRET = None \<rparr>
           5000 ''x.example'' (Some ''12345'') 3600) ''x.example'' = None"
proof -
  have h0: "''x.example'' \<noteq> ''y.example''" by simp
  have h1: "(6000::int) < 1000 * (seconds 5000 + 3600)"
    and h2: "1000 * (seconds 5000 + 3600) \<le> (3605000::int)"
    and s: "seconds 5000 = 5"
    by (simp_all add: seconds_def)
  show ?thesis
    using h0 h1 h2 s
      validateSession_isolation [of "''x.example''" "''y.example''"
        "\<lparr> env_JWT_SECRET = Some ''k'', env_SHOPIFY_API_SECRET = None \<rparr>"
        6000 5000 "Some ''12345''" 3600]
      validateSession_isolation [of "''x.example''" "''x.example''"
        "\<lparr> env_JWT_SECRET = Some ''k'', env_SHOPIFY_API_SECRET = None \<rparr>"
        3605000 5000 "Some ''12345''" 3600]
    by simp
qed

text \<open>
  Claim C9, as the code has it. For a token that verifies, carries the caller's shop and
  has not expired, \<open>refreshSession\<close> returns a new token for the same shop and subject,
  issued at the current clock and expiring 3600 seconds later, whatever the kind of the
  subject; for every other token it returns \<open>null\<close>.
\<close>

theorem refreshSession_reissues:
  "(k = JWT_SECRET e \<and> p_shop p = shop \<and> seconds now < p_exp p
      \<longrightarrow> refreshSession e now (Signed k p) shop
            = Some \<lparr> r_success = True,
                     r_token = Signed (JWT_SECRET e)
                                 \<lparr> p_shop = shop, p_customerId = p_customerId p,
                                   p_type = ''storefront'', p_iat = seconds now,
                                   p_exp = seconds now + 3600 \<rparr>,
                     r_expiresIn = 3600,
                     r_customerId = p_customerId p \<rparr>)
   \<and> (k \<noteq> JWT_SECRET e \<or> p_shop p \<noteq> shop \<or> p_exp p \<le> seconds now
      \<longrightarrow> refreshSession e now (Signed k p) shop = None)
   \<and> refreshSession e now (Malformed s) shop = None"
  by (auto simp: refreshSession_def validateSession_def verifyStorefrontToken_def
        generateStorefrontToken_def jwt_sign_def jwt_verify_def)

theorem refreshSession_reissues_witness:
  "''k'' = JWT_SECRET \<lparr> env_JWT_SECRET = Some ''k'', env_SHOPIFY_API_SECRET = None \<rparr>
   \<and> seconds 6000 < 86405
   \<and> refreshSession \<lparr> env_JWT_SECRET = Some ''k'', env_SHOPIFY_API_SECRET = None \<rparr> 6000
        (Signed ''k'' \<lparr> p_shop = ''x.example'', p_customerId = Some ''guest_g1'',
                         p_type = ''storefront'', p_iat = 5, p_exp = 86405 \<rparr>) ''x.example''
      = Some \<lparr> r_success = True,
               r_token = Signed ''k''
                           \<lparr> p_shop = ''x.example'', p_customerId = Some ''guest_g1'',
                             p_type = ''storefront'', p_iat = 6, p_exp = 3606 \<rparr>,
               r_expiresIn = 3600,
               r_customerId = Some ''guest_g1'' \<rparr>
   \<and> ''x.example'' \<noteq> ''y.example''
   \<and> refreshSession \<lparr> env_JWT_SECRET = Some ''k'', env_SHOPIFY_API_SECRET = None \<rparr> 6000
        (Signed ''k'' \<lparr> p_shop = ''x.example'', p_customerId = Some ''guest_g1'',
                         p_type = ''storefront'', p_iat = 5, p_exp = 86405 \<rparr>) ''y.example''
      = None"
proof -
  have k: "''k'' = JWT_SECRET \<lparr> env_JWT_SECRET = Some ''k'', env_SHOPIFY_API_SECRET = None \<rparr>"
    by (simp add: JWT_SECRET_def or_else_def)
  have s: "seconds 6000 = 6" by (simp add: seconds_def)
  have h: "''x.example'' \<noteq> ''y.example''" by simp
  show ?thesis
    using k s h
      refreshSession_reissues [of "''k''"
        "\<lparr> env_JWT_SECRET = Some ''k'', env_SHOPIFY_API_SECRET = None \<rparr>"
        "\<lparr> p_shop = ''x.example'', p_customerId = Some ''guest_g1'',
           p_type = ''storefront'', p_iat = 5, p_exp = 86405 \<rparr>" "''x.example''" 6000]
      refreshSession_reissues [of "''k''"
        "\<lparr> env_JWT_SECRET = Some ''k'', env_SHOPIFY_API_SECRET = None \<rparr>"
        "\<lparr> p_shop = ''x.example'', p_customerId = Some ''guest_g1'',
           p_type = ''storefront'', p_iat = 5, p_exp = 86405 \<rparr>" "''y.example''" 6000]
    by simp
qed

text \<open>
  A guest token is issued with a lifetime of 86400 seconds; refreshed, it has the same
  subject and a lifetime of 3600 seconds.
\<close>

theorem refreshSession_guest_counterexample:
  "lifetime (generateGuestToken \<lparr> env_JWT_SECRET = Some ''k'', env_SHOPIFY_API_SECRET = None \<rparr>
               5000 ''x.example'' ''g1'') = Some 86400
   \<and> refreshSession \<lparr> env_JWT_SECRET = Some ''k'', env_SHOPIFY_API_SECRET = None \<rparr> 6000
        (generateGuestToken \<lparr> env_JWT_SECRET = Some ''k'', env_SHOPIFY_API_SECRET = None \<rparr>
           5000 ''x.example'' ''g1'') ''x.example'' \<noteq> None
   \<and> lifetime (r_token (the
        (refreshSession \<lparr> env_JWT_SECRET = Some ''k'', env_SHOPIFY_API_SECRET = None \<rparr> 6000
           (generateGuestToken \<lparr> env_JWT_SECRET = Some ''k'', env_SHOPIFY_API_SECRET = None \<rparr>
              5000 ''x.example'' ''g1'') ''x.example''))) = Some 3600
   \<and> r_customerId (the
        (refreshSession \<lparr> env_JWT_SECRET = Some ''k'', env_SHOPIFY_API_SECRET = None \<rparr> 6000
           (generateGuestToken \<lparr> env_JWT_SECRET = Some ''k'', env_SHOPIFY_API_SECRET = None \<rparr>
              5000 ''x.example'' ''g1'') ''x.example'')) = Some ''guest_g1''"
  by (simp add: refreshSession_def validateSession_def verifyStorefrontToken_def
        generateGuestToken_def generateStorefrontToken_def jwt_sign_def jwt_verify_def
        seconds_def lifetime_def JWT_SECRET_def or_else_def)

section \<open>Properties of the configuration\<close>

text \<open>
  Claim C10, as the code has it. Without the upstream shared secret (absent or empty)
  every request is answered by the 500 configuration response, whatever its signature.
  Without the signing secret the built-in default secret is used: tokens are signed and
  verified under it.
\<close>

theorem missing_secrets:
  "(\<not> truthy (env_SHOPIFY_API_SECRET e)
      \<longrightarrow> verifyAppProxyRequest H e req
            = Returns \<lparr> status = 500, body = ErrorBody ''Server configuration error'' \<rparr>)
   \<and> (\<not> truthy (env_JWT_SECRET e)
      \<longrightarrow> JWT_SECRET e = ''your-jwt-secret-change-in-production''
          \<and> verifyStorefrontToken e now (generateStorefrontToken e now shop customerId 3600)
            = Some \<lparr> p_shop = shop, p_customerId = customerId, p_type = ''storefront'',
                     p_iat = seconds now, p_exp = seconds now + 3600 \<rparr>)"
  by (auto simp: verifyAppProxyRequest_def truthy_def JWT_SECRET_def or_else_def
        verifyStorefrontToken_def generateStorefrontToken_def jwt_sign_def jwt_verify_def
        seconds_def split: option.splits)

theorem missing_secrets_witness:
  "\<not> truthy (env_SHOPIFY_API_SECRET \<lparr> env_JWT_SECRET = None, env_SHOPIFY_API_SECRET = None \<rparr>)
   \<and> verifyAppProxyRequest (\<lambda>k m. []) \<lparr> env_JWT_SECRET = None, env_SHOPIFY_API_SECRET = None \<rparr>
        \<lparr> pr_hmac = Some ''AAAA'', pr_shop_domain = Some ''x.example'', pr_query_shop = None,
          pr_body_shop = None, pr_rawBody = None, pr_bodyText = [] \<rparr>
      = Returns \<lparr> status = 500, body = ErrorBody ''Server configuration error'' \<rparr>
   \<and> \<not> truthy (env_JWT_SECRET \<lparr> env_JWT_SECRET = None, env_SHOPIFY_API_SECRET = None \<rparr>)
   \<and> JWT_SECRET \<lparr> env_JWT_SECRET = None, env_SHOPIFY_API_SECRET = None \<rparr>
      = ''your-jwt-secret-change-in-production''"
proof -
  have h: "\<not> truthy (env_SHOPIFY_API_SECRET \<lparr> env_JWT_SECRET = None, env_SHOPIFY_API_SECRET = None \<rparr>)"
    "\<not> truthy (env_JWT_SECRET \<lparr> env_JWT_SECRET = None, env_SHOPIFY_API_SECRET = None \<rparr>)"
    by (simp_all add: truthy_def)
  show ?thesis
    using h
      missing_secrets [of "\<lparr> env_JWT_SECRET = None, env_SHOPIFY_API_SECRET = None \<rparr>"
        "\<lambda>k m. []"
        "\<lparr> pr_hmac = Some ''AAAA'', pr_shop_domain = Some ''x.example'', pr_query_shop = None,
          pr_body_shop = None, pr_rawBody = None, pr_bodyText = [] \<rparr>" 0 "''x.example''" None]
    by simp
qed

text \<open>
  With no signing secret in the configuration, a token is issued, signed under the default
  secret, and accepted by verification.
\<close>

theorem missing_jwt_secret_counterexample:
  "env_JWT_SECRET \<lparr> env_JWT_SECRET = None, env_SHOPIFY_API_SECRET = Some ''s'' \<rparr> = None
   \<and> generateStorefrontToken \<lparr> env_JWT_SECRET = None, env_SHOPIFY_API_SECRET = Some ''s'' \<rparr>
        5000 ''x.example'' (Some ''12345'') 3600
      = Signed ''your-jwt-secret-change-in-production''
          \<lparr> p_shop = ''x.example'', p_customerId = Some ''12345'', p_type = ''storefront'',
            p_iat = 5, p_exp = 3605 \<rparr>
   \<and> verifyStorefrontToken \<lparr> env_JWT_SECRET = None, env_SHOPIFY_API_SECRET = Some ''s'' \<rparr> 6000
        (generateStorefrontToken \<lparr> env_JWT_SECRET = None, env_SHOPIFY_API_SECRET = Some ''s'' \<rparr>
           5000 ''x.example'' (Some ''12345'') 3600)
      = Some \<lparr> p_shop = ''x.example'', p_customerId = Some ''12345'', p_type = ''storefront'',
               p_iat = 5, p_exp = 3605 \<rparr>"
  by (simp add: verifyStorefrontToken_def generateStorefrontToken_def jwt_sign_def
        jwt_verify_def seconds_def JWT_SECRET_def or_else_def)


section \<open>Properties of the request authentication\<close>

text \<open>
  The decoder reads back what the encoder wrote: every sextet is below 64, its character
  is in the alphabet and is not the padding character, and the three bytes of a group are
  recovered from its four sextets.
\<close>

lemma unbase64_enc: "i < 64 \<Longrightarrow> unbase64 (enc i) = Some i"
  by (auto simp: unbase64_def enc_def Let_def)

lemma unbase64_pad: "unbase64 CHR ''='' = None"
  by (simp add: unbase64_def)

lemma enc_not_pad: "i < 64 \<Longrightarrow> enc i \<noteq> CHR ''=''"
  using unbase64_enc [of i] unbase64_pad by auto

lemma sextets_enc: "i < 64 \<Longrightarrow> sextets (enc i # cs) = i # sextets cs"
  by (simp add: unbase64_enc enc_not_pad)

lemma sextets_pad: "sextets (CHR ''='' # cs) = []"
  by simp

lemma unat_byte: "unat (a :: byte) < 256"
  using unsigned_less [of a, where ?'a = nat] by simp

lemma first_byte_short: "(n::nat) div 4 * 4 + n mod 4 * 16 div 16 = n"
  by simp

lemma first_byte: "(n::nat) div 4 * 4 + (n mod 4 * 16 + m div 16) div 16 = n" if "m < 256"
proof -
  have "m div 16 < 16" using that by simp
  then have "(n mod 4 * 16 + m div 16) div 16 = n mod 4" by simp
  then show ?thesis by simp
qed

lemma second_byte: "((n::nat) mod 4 * 16 + m div 16) mod 16 * 16 + (m mod 16 * 4 + k div 64) div 4 = m"
  if "m < 256" "k < 256"
proof -
  have "m div 16 < 16" "k div 64 < 4" using that by simp_all
  then have "(n mod 4 * 16 + m div 16) mod 16 = m div 16"
    "(m mod 16 * 4 + k div 64) div 4 = m mod 16" by simp_all
  then show ?thesis by simp
qed

lemma second_byte_short: "((n::nat) mod 4 * 16 + m div 16) mod 16 * 16 + m mod 16 * 4 div 4 = m"
  if "m < 256"
  using second_byte [of m 0 n] that by simp

lemma third_byte: "((m::nat) mod 16 * 4 + k div 64) mod 4 * 64 + k mod 64 = k" if "k < 256"
proof -
  have "k div 64 < 4" using that by simp
  then have "(m mod 16 * 4 + k div 64) mod 4 = k div 64" by simp
  then show ?thesis by simp
qed

lemma sextet0_bound: "(n::nat) < 256 \<Longrightarrow> n div 4 < 64"
  by simp

lemma sextet1_bound: "(m::nat) < 256 \<Longrightarrow> n mod 4 * 16 + m div 16 < 64"
proof -
  assume "m < 256"
  then have "m div 16 < 16" by simp
  moreover have "n mod 4 < 4" by simp
  ultimately show ?thesis by linarith
qed

lemma sextet2_bound: "(k::nat) < 256 \<Longrightarrow> m mod 16 * 4 + k div 64 < 64"
proof -
  assume "k < 256"
  then have "k div 64 < 4" by simp
  moreover have "m mod 16 < 16" by simp
  ultimately show ?thesis by linarith
qed

lemma b64_roundtrip: "b64decode (b64encode bs) = bs"
  unfolding b64decode_def
proof (induction bs rule: b64encode.induct)
  case 1
  show ?case by simp
next
  case (2 a)
  have s0: "unat a div 4 < 64" and s1: "unat a mod 4 * 16 < 64"
    using sextet0_bound [OF unat_byte [of a]] sextet1_bound [of 0 "unat a"] by simp_all
  show ?case using first_byte_short [of "unat a"]
    by (simp add: sextets_enc [OF s0] sextets_enc [OF s1] sextets_pad del: sextets.simps)
next
  case (3 a b)
  have s0: "unat a div 4 < 64" and s1: "unat a mod 4 * 16 + unat b div 16 < 64"
    and s2: "unat b mod 16 * 4 < 64"
    using sextet0_bound [OF unat_byte [of a]] sextet1_bound [OF unat_byte [of b], of "unat a"]
      sextet2_bound [of 0 "unat b"] by simp_all
  show ?case
    using first_byte [OF unat_byte [of b], of "unat a"] second_byte_short [OF unat_byte [of b], of "unat a"]
    by (simp add: sextets_enc [OF s0] sextets_enc [OF s1] sextets_enc [OF s2] sextets_pad
          del: sextets.simps)
next
  case (4 a b c bs)
  have s0: "unat a div 4 < 64" and s1: "unat a mod 4 * 16 + unat b div 16 < 64"
    and s2: "unat b mod 16 * 4 + unat c div 64 < 64" and s3: "unat c mod 64 < 64"
    using sextet0_bound [OF unat_byte [of a]] sextet1_bound [OF unat_byte [of b], of "unat a"]
      sextet2_bound [OF unat_byte [of c], of "unat b"] by simp_all
  show ?case
    using 4 first_byte [OF unat_byte [of b], of "unat a"]
      second_byte [OF unat_byte [of b] unat_byte [of c], of "unat a"]
      third_byte [OF unat_byte [of c], of "unat b"]
    by (simp add: sextets_enc [OF s0] sextets_enc [OF s1] sextets_enc [OF s2]
          sextets_enc [OF s3] del: sextets.simps)
qed

text \<open>
  With a header present, the check compares the decoded header with the keyed hash of
  the body, after the comparison of their lengths.
\<close>

lemma verifyAppProxyHMAC_eq:
  "pr_hmac req = Some h \<Longrightarrow> h \<noteq> [] \<Longrightarrow>
   verifyAppProxyHMAC H req secret
     = timingSafeEqual (b64decode h)
         (H secret (case pr_rawBody req of Some b \<Rightarrow> b | None \<Rightarrow> pr_bodyText req))"
  by (simp add: verifyAppProxyHMAC_def b64_roundtrip)

text \<open>
  Claim C6, where the code departs from it. With the shared secret configured, a
  signature header whose decoded length differs from the length of the keyed hash makes
  \<open>crypto.timingSafeEqual\<close> throw: the middleware raises \<open>RangeError\<close> and sends no
  401 response.
\<close>

theorem signature_length_mismatch_throws:
  assumes "env_SHOPIFY_API_SECRET e = Some secret" and "secret \<noteq> []"
    and "pr_hmac req = Some h" and "h \<noteq> []"
    and "length (b64decode h)
           \<noteq> length (H secret (case pr_rawBody req of Some b \<Rightarrow> b | None \<Rightarrow> pr_bodyText req))"
  shows "verifyAppProxyRequest H e req = Throws RangeError"
  using assms
  by (simp add: verifyAppProxyRequest_def verifyAppProxyHMAC_eq timingSafeEqual_def)

text \<open>
  The header \<open>AAAA\<close> decodes to three bytes, against a hash of 32 bytes.
\<close>

theorem signature_length_mismatch_throws_witness:
  "length (b64decode ''AAAA'') = 3
   \<and> verifyAppProxyRequest (\<lambda>k m. replicate 32 0)
        \<lparr> env_JWT_SECRET = None, env_SHOPIFY_API_SECRET = Some ''secret'' \<rparr>
        \<lparr> pr_hmac = Some ''AAAA'', pr_shop_domain = Some ''x.example'', pr_query_shop = None,
          pr_body_shop = None, pr_rawBody = Some [], pr_bodyText = [] \<rparr>
      = Throws RangeError"
proof -
  have l: "length (b64decode ''AAAA'') = 3"
    by (simp add: b64decode_def unbase64_def)
  show ?thesis
    using l
      signature_length_mismatch_throws [of
        "\<lparr> env_JWT_SECRET = None, env_SHOPIFY_API_SECRET = Some ''secret'' \<rparr>" "''secret''"
        "\<lparr> pr_hmac = Some ''AAAA'', pr_shop_domain = Some ''x.example'', pr_query_shop = None,
          pr_body_shop = None, pr_rawBody = Some [], pr_bodyText = [] \<rparr>" "''AAAA''"
        "\<lambda>k m. replicate 32 0"]
    by simp
qed

text \<open>
  The other cases of the claim hold: an absent or empty header and a header of the right
  length that differs from the hash are answered by 401, and the encoded hash of the
  received body under the configured secret is accepted.
\<close>

lemma absent_signature_unauthorized:
  assumes "env_SHOPIFY_API_SECRET e = Some secret" and "secret \<noteq> []"
    and "\<not> truthy (pr_hmac req)"
  shows "verifyAppProxyRequest H e req = Returns \<lparr> status = 401, body = ErrorBody ''Unauthorized'' \<rparr>"
  using assms
  by (auto simp: verifyAppProxyRequest_def verifyAppProxyHMAC_def truthy_def split: option.splits)

lemma wrong_signature_unauthorized:
  assumes "env_SHOPIFY_API_SECRET e = Some secret" and "secret \<noteq> []"
    and "pr_hmac req = Some h" and "h \<noteq> []"
    and "length (b64decode h) = length (H secret raw)"
    and "b64decode h \<noteq> H secret raw"
    and "raw = (case pr_rawBody req of Some b \<Rightarrow> b | None \<Rightarrow> pr_bodyText req)"
  shows "verifyAppProxyRequest H e req = Returns \<lparr> status = 401, body = ErrorBody ''Unauthorized'' \<rparr>"
  using assms
  by (simp add: verifyAppProxyRequest_def verifyAppProxyHMAC_eq timingSafeEqual_def)

lemma b64encode_empty: "b64encode bs = [] \<longleftrightarrow> bs = []"
  by (cases bs rule: b64encode.cases) simp_all

lemma valid_signature_accepted:
  assumes "env_SHOPIFY_API_SECRET e = Some secret" and "secret \<noteq> []"
    and "pr_rawBody req = Some raw" and "H secret raw \<noteq> []"
    and "pr_hmac req = Some (b64encode (H secret raw))"
    and "pr_shop_domain req = Some shop" and "shop \<noteq> []"
  shows "verifyAppProxyRequest H e req = Value shop"
  using assms
  by (simp add: verifyAppProxyRequest_def verifyAppProxyHMAC_eq timingSafeEqual_def
        b64_roundtrip b64encode_empty truthy_def)

section \<open>Properties of the routes\<close>

subsection \<open>Removing an item\<close>

text \<open>
  Claim C3, where the code departs from it. When the caller is the registered customer
  who owns the wishlist of the item, in the right shop, the route deletes the item row and
  then fails: the response is the 500 of the \<open>catch\<close> block, not the success
  response.
\<close>

theorem delete_as_owner_fails_after_deleting:
  assumes "shop_findUnique d (req_shop req) = Some shopRecord"
    and "item_findUnique d (param_id req) = Some wishlistItem"
    and "wishlist_by_id d (item_wishlistId wishlistItem) = Some w"
    and "wl_shopId w = shop_id shopRecord"
    and "\<not> isGuest (parseCustomerId (req_customerId req))"
    and "find_customer d shopRecord (key (parseCustomerId (req_customerId req)))
           = Inr (Some customer)"
    and "wl_customerId w = Some (cust_id customer)"
  shows "delete_item e now req d
           = (\<lparr> status = 500, body = ErrorBody ''Internal server error'' \<rparr>,
              item_delete d (param_id req))
         \<and> item_findUnique (item_delete d (param_id req)) (param_id req) = None"
proof -
  have "delete_item_try e now req d = (Throws ReferenceError, item_delete d (param_id req))"
    using assms by (simp add: delete_item_try_def owner_check_def Let_def)
  moreover have "item_findUnique (item_delete d (param_id req)) (param_id req) = None"
    by (simp add: item_findUnique_def item_delete_def find_None_iff)
  ultimately show ?thesis
    by (simp add: delete_item_def catch500_def respond_def)
qed

text \<open>
  Customer 12345 of shop \<open>x.example\<close> deletes item 4 of their own wishlist.
\<close>

theorem delete_as_owner_fails_after_deleting_witness:
  "delete_item \<lparr> env_JWT_SECRET = Some ''k'', env_SHOPIFY_API_SECRET = Some ''s'' \<rparr> 2000
     \<lparr> req_shop = ''x.example'', req_customerId = Some ''12345'', body_productId = None,
       body_variantId = None, body_handle = None, body_guestToken = None, param_id = 4 \<rparr>
     \<lparr> shops = [\<lparr> shop_id = 1, shop_domain = ''x.example'' \<rparr>],
       customers = [\<lparr> cust_id = 2, cust_shopId = 1, cust_shopCustomerId = 12345 \<rparr>],
       wishlists = [\<lparr> wl_id = 3, wl_shopId = 1, wl_customerId = Some 2,
                      wl_shareUUID = ''customer_2_1000'' \<rparr>],
       items = [\<lparr> item_id = 4, item_wishlistId = 3, item_productId = 100,
                  item_variantId = 200, item_handle = ''shoe'', item_createdAt = 1000 \<rparr>],
       events = [], nextId = 5 \<rparr>
   = (\<lparr> status = 500, body = ErrorBody ''Internal server error'' \<rparr>,
      \<lparr> shops = [\<lparr> shop_id = 1, shop_domain = ''x.example'' \<rparr>],
        customers = [\<lparr> cust_id = 2, cust_shopId = 1, cust_shopCustomerId = 12345 \<rparr>],
        wishlists = [\<lparr> wl_id = 3, wl_shopId = 1, wl_customerId = Some 2,
                       wl_shareUUID = ''customer_2_1000'' \<rparr>],
        items = [], events = [], nextId = 5 \<rparr>)"
  (is "delete_item ?e 2000 ?req ?d = _")
proof -
  let ?shop = "\<lparr> shop_id = 1, shop_domain = ''x.example'' \<rparr>"
  let ?item = "\<lparr> item_id = 4, item_wishlistId = 3, item_productId = 100,
                  item_variantId = 200, item_handle = ''shoe'', item_createdAt = 1000 \<rparr>"
  let ?w = "\<lparr> wl_id = 3, wl_shopId = 1, wl_customerId = Some 2,
               wl_shareUUID = ''customer_2_1000'' \<rparr>"
  let ?c = "\<lparr> cust_id = 2, cust_shopId = 1, cust_shopCustomerId = 12345 \<rparr>"
  have h1: "shop_findUnique ?d (req_shop ?req) = Some ?shop" by code_simp
  have h2: "item_findUnique ?d (param_id ?req) = Some ?item" by code_simp
  have h3: "wishlist_by_id ?d (item_wishlistId ?item) = Some ?w" by code_simp
  have h4: "wl_shopId ?w = shop_id ?shop" by simp
  have h5: "\<not> isGuest (parseCustomerId (req_customerId ?req))" by code_simp
  have h6: "find_customer ?d ?shop (key (parseCustomerId (req_customerId ?req)))
              = Inr (Some ?c)" by code_simp
  have h7: "wl_customerId ?w = Some (cust_id ?c)" by simp
  show ?thesis
    using delete_as_owner_fails_after_deleting [OF h1 h2 h3 h4 h5 h6 h7, of ?e 2000]
    by (simp add: item_delete_def)
qed

text \<open>
  The refusals of the claim hold: a guest identity, an unknown customer and another
  customer are answered by 403, and the store is left as it was.
\<close>

lemma delete_as_guest_forbidden:
  assumes "shop_findUnique d (req_shop req) = Some shopRecord"
    and "item_findUnique d (param_id req) = Some wishlistItem"
    and "wishlist_by_id d (item_wishlistId wishlistItem) = Some w"
    and "wl_customerId w = Some c"
    and "isGuest (parseCustomerId (req_customerId req))"
  shows "delete_item e now req d
           = (\<lparr> status = 403, body = ErrorBody ''Access denied'' \<rparr>, d)"
  using assms
  by (simp add: delete_item_def delete_item_try_def owner_check_def catch500_def
        respond_def Let_def)

lemma delete_as_other_customer_forbidden:
  assumes "shop_findUnique d (req_shop req) = Some shopRecord"
    and "item_findUnique d (param_id req) = Some wishlistItem"
    and "wishlist_by_id d (item_wishlistId wishlistItem) = Some w"
    and "\<not> isGuest (parseCustomerId (req_customerId req))"
    and "find_customer d shopRecord (key (parseCustomerId (req_customerId req))) = Inr other"
    and "other \<noteq> None \<longrightarrow> wl_customerId w \<noteq> Some (cust_id (the other))"
  shows "delete_item e now req d
           = (\<lparr> status = 403, body = ErrorBody ''Access denied'' \<rparr>, d)"
  using assms
  by (cases other)
     (simp_all add: delete_item_def delete_item_try_def owner_check_def catch500_def
        respond_def Let_def)

subsection \<open>Adding an item twice\<close>

lemma find_append_None:
  "find P xs = None \<Longrightarrow> find P (xs @ ys) = find P ys"
  by (induction xs) (auto split: if_splits)

lemma caller_wishlist_found:
  assumes "if isGuest ident
           then guest_wishlist_findFirst d (shop_id shopRecord)
                  (or_else (key ident) ''default-guest'') = Some w
           else find_customer d shopRecord (key ident) = Inr (Some customer)
                \<and> wishlist_findUnique d (shop_id shopRecord) (cust_id customer) = Some w"
    and "customers d' = customers d" and "wishlists d' = wishlists d"
  shows "caller_wishlist now ident shopRecord d' = (Value w, d')"
  using assms
  by (auto simp: caller_wishlist_def guest_wishlist_findFirst_def wishlist_findUnique_def
        find_customer_def customer_findFirst_def
        split: if_splits option.splits)

lemma add_item_new:
  assumes "BigInt p = Some pid" and "BigInt v = Some vid" and "int8 pid" and "int8 vid"
    and "item_findFirst d (wl_id w) pid vid = None"
  shows "snd (add_item e now req ident shopRecord w p v h d)
           = (if isGuest ident
              then event_create (snd (item_create d now (wl_id w) pid vid h))
                     (shop_id shopRecord) None ''add'' (AddPayload p v h True)
              else snd (item_create d now (wl_id w) pid vid h))"
    and "fst (add_item e now req ident shopRecord w p v h d)
           = (if isGuest ident
              then Returns (respond 201 (ItemBody (view (fst (item_create d now (wl_id w) pid vid h))) now
                     (generateStorefrontToken e now (req_shop req) (req_customerId req) 3600)))
              else Throws ReferenceError)"
  using assms by (simp_all add: add_item_def item_create_def Let_def)

lemma add_item_existing:
  assumes "BigInt p = Some pid" and "BigInt v = Some vid" and "int8 pid" and "int8 vid"
    and "item_findFirst d (wl_id w) pid vid = Some it"
  shows "add_item e now req ident shopRecord w p v h d
           = (Returns (respond 409 (ConflictBody ''Item already in wishlist'' (view it))), d)"
  using assms by (simp add: add_item_def)

lemma item_findFirst_None_iff:
  "item_findFirst d wid pid vid = None
     \<longleftrightarrow> filter (\<lambda>i. item_key i = (pid, vid)) (wishlist_items d wid) = []"
  by (auto simp: item_findFirst_def wishlist_items_def item_key_def find_None_iff
        filter_empty_conv)

text \<open>
  For a registered caller the first add writes the item row and then fails on the
  out-of-scope \<open>customer\<close>: the response is the 500 of the \<open>catch\<close> block.
\<close>

lemma add_as_registered_fails_after_creating:
  assumes "body_productId req = Some p" "body_variantId req = Some v"
      "body_handle req = Some h" "p \<noteq> []" "v \<noteq> []" "h \<noteq> []"
    and "BigInt p = Some pid" "BigInt v = Some vid" "int8 pid" "int8 vid"
    and "shop_findUnique d (req_shop req) = Some shopRecord"
    and "\<not> isGuest (parseCustomerId (req_customerId req))"
    and "find_customer d shopRecord (key (parseCustomerId (req_customerId req)))
           = Inr (Some customer)"
    and "wishlist_findUnique d (shop_id shopRecord) (cust_id customer) = Some w"
    and "item_findFirst d (wl_id w) pid vid = None"
  shows "post_items e now req d
           = (\<lparr> status = 500, body = ErrorBody ''Internal server error'' \<rparr>,
              snd (item_create d now (wl_id w) pid vid h))"
  using assms
  by (simp add: post_items_def post_items_try_def caller_wishlist_def add_item_def
        item_create_def catch500_def respond_def Let_def)

text \<open>
  Claim C5. Let a request carry well-formed fields and let the caller's wishlist \<open>w\<close>
  exist and hold no item with the requested \<open>(productId, variantId)\<close>. Adding the
  item twice: the first add is not a conflict; the second add is answered by 409 with the
  item that the first add created; it leaves the store unchanged; and the wishlist then
  holds exactly one item with that pair.
\<close>

theorem add_twice_conflict:
  assumes fields: "body_productId req = Some p" "body_variantId req = Some v"
      "body_handle req = Some h" "p \<noteq> []" "v \<noteq> []" "h \<noteq> []"
    and parse: "BigInt p = Some pid" "BigInt v = Some vid" "int8 pid" "int8 vid"
    and shop: "shop_findUnique d (req_shop req) = Some shopRecord"
    and wl: "if isGuest (parseCustomerId (req_customerId req))
             then guest_wishlist_findFirst d (shop_id shopRecord)
                    (or_else (key (parseCustomerId (req_customerId req))) ''default-guest'')
                  = Some w
             else find_customer d shopRecord (key (parseCustomerId (req_customerId req)))
                    = Inr (Some customer)
                  \<and> wishlist_findUnique d (shop_id shopRecord) (cust_id customer) = Some w"
    and fresh: "item_findFirst d (wl_id w) pid vid = None"
    and first: "post_items e now1 req d = (r1, d1)"
    and second: "post_items e now2 req d1 = (r2, d2)"
  shows "status r1 \<noteq> 409
         \<and> r2 = \<lparr> status = 409,
                   body = ConflictBody ''Item already in wishlist''
                            \<lparr> iv_id = nextId d, iv_productId = show_int pid,
                              iv_variantId = show_int vid, iv_handle = h \<rparr> \<rparr>
         \<and> d2 = d1
         \<and> filter (\<lambda>i. item_key i = (pid, vid)) (wishlist_items d2 (wl_id w))
             = [\<lparr> item_id = nextId d, item_wishlistId = wl_id w, item_productId = pid,
                  item_variantId = vid, item_handle = h, item_createdAt = now1 \<rparr>]"
proof -
  let ?ident = "parseCustomerId (req_customerId req)"
  let ?new = "\<lparr> item_id = nextId d, item_wishlistId = wl_id w, item_productId = pid,
                 item_variantId = vid, item_handle = h, item_createdAt = now1 \<rparr>"
  have cw: "caller_wishlist now1 ?ident shopRecord d = (Value w, d)"
    using caller_wishlist_found [OF wl] by simp
  have try1: "post_items_try e now1 req d
                = add_item e now1 req ?ident shopRecord w p v h d"
    using fields shop cw by (simp add: post_items_try_def Let_def)
  have st1: "status r1 \<noteq> 409"
    using first add_item_new(2) [OF parse fresh, of e now1 req ?ident shopRecord h]
    by (cases "add_item e now1 req ?ident shopRecord w p v h d")
       (auto simp: post_items_def try1 catch500_def respond_def split: if_splits)
  have d1: "d1 = (if isGuest ?ident
              then event_create (snd (item_create d now1 (wl_id w) pid vid h))
                     (shop_id shopRecord) None ''add'' (AddPayload p v h True)
              else snd (item_create d now1 (wl_id w) pid vid h))"
    using first add_item_new(1) [OF parse fresh, of e now1 req ?ident shopRecord h]
    by (cases "add_item e now1 req ?ident shopRecord w p v h d")
       (auto simp: post_items_def try1 catch500_def split: flow.splits)
  have tabs: "customers d1 = customers d" "wishlists d1 = wishlists d" "shops d1 = shops d"
    and its: "items d1 = items d @ [?new]"
    by (simp_all add: d1 event_create_def item_create_def Let_def)
  have shop1: "shop_findUnique d1 (req_shop req) = Some shopRecord"
    using shop by (simp add: shop_findUnique_def tabs)
  have cw1: "caller_wishlist now2 ?ident shopRecord d1 = (Value w, d1)"
    using caller_wishlist_found [OF wl tabs(1,2)] .
  have found: "item_findFirst d1 (wl_id w) pid vid = Some ?new"
    using fresh by (simp add: item_findFirst_def its find_append_None)
  have try2: "post_items_try e now2 req d1
                = (Returns (respond 409 (ConflictBody ''Item already in wishlist'' (view ?new))), d1)"
    using fields shop1 cw1 add_item_existing [OF parse found]
    by (simp add: post_items_try_def Let_def)
  have r2: "r2 = respond 409 (ConflictBody ''Item already in wishlist'' (view ?new))"
    and d2: "d2 = d1"
    using second by (simp_all add: post_items_def try2 catch500_def)
  have cnt: "filter (\<lambda>i. item_key i = (pid, vid)) (wishlist_items d1 (wl_id w)) = [?new]"
    using fresh [unfolded item_findFirst_None_iff]
    by (simp add: wishlist_items_def its item_key_def)
  show ?thesis
    using st1 r2 d2 cnt by (simp add: respond_def view_def)
qed

text \<open>
  Guest \<open>g1\<close> adds product 100, variant 200 twice.
\<close>

theorem add_twice_conflict_witness:
  "status (fst (post_items \<lparr> env_JWT_SECRET = Some ''k'', env_SHOPIFY_API_SECRET = Some ''s'' \<rparr>
      1000
      \<lparr> req_shop = ''x.example'', req_customerId = Some ''guest_g1'',
        body_productId = Some ''100'', body_variantId = Some ''200'',
        body_handle = Some ''shoe'', body_guestToken = None, param_id = 0 \<rparr>
      \<lparr> shops = [\<lparr> shop_id = 1, shop_domain = ''x.example'' \<rparr>], customers = [],
        wishlists = [\<lparr> wl_id = 2, wl_shopId = 1, wl_customerId = None,
                       wl_shareUUID = ''g1'' \<rparr>],
        items = [], events = [], nextId = 3 \<rparr>)) = 201
   \<and> fst (post_items \<lparr> env_JWT_SECRET = Some ''k'', env_SHOPIFY_API_SECRET = Some ''s'' \<rparr>
      2000
      \<lparr> req_shop = ''x.example'', req_customerId = Some ''guest_g1'',
        body_productId = Some ''100'', body_variantId = Some ''200'',
        body_handle = Some ''shoe'', body_guestToken = None, param_id = 0 \<rparr>
      (snd (post_items \<lparr> env_JWT_SECRET = Some ''k'', env_SHOPIFY_API_SECRET = Some ''s'' \<rparr>
         1000
         \<lparr> req_shop = ''x.example'', req_customerId = Some ''guest_g1'',
           body_productId = Some ''100'', body_variantId = Some ''200'',
           body_handle = Some ''shoe'', body_guestToken = None, param_id = 0 \<rparr>
         \<lparr> shops = [\<lparr> shop_id = 1, shop_domain = ''x.example'' \<rparr>], customers = [],
           wishlists = [\<lparr> wl_id = 2, wl_shopId = 1, wl_customerId = None,
                          wl_shareUUID = ''g1'' \<rparr>],
           items = [], events = [], nextId = 3 \<rparr>)))
     = \<lparr> status = 409,
         body = ConflictBody ''Item already in wishlist''
                  \<lparr> iv_id = 3, iv_productId = ''100'', iv_variantId = ''200'',
                    iv_handle = ''shoe'' \<rparr> \<rparr>"
  (is "status (fst (post_items ?e 1000 ?req ?d)) = 201 \<and> _")
proof -
  let ?shop = "\<lparr> shop_id = 1, shop_domain = ''x.example'' \<rparr>"
  let ?w = "\<lparr> wl_id = 2, wl_shopId = 1, wl_customerId = None, wl_shareUUID = ''g1'' \<rparr>"
  have f: "body_productId ?req = Some ''100''" "body_variantId ?req = Some ''200''"
    "body_handle ?req = Some ''shoe''" "''100'' \<noteq> []" "''200'' \<noteq> []" "''shoe'' \<noteq> []"
    by simp_all
  have p: "BigInt ''100'' = Some 100" "BigInt ''200'' = Some 200" "int8 100" "int8 200"
    by code_simp+
  have s: "shop_findUnique ?d (req_shop ?req) = Some ?shop" by code_simp
  have g: "isGuest (parseCustomerId (req_customerId ?req))" by code_simp
  have l: "guest_wishlist_findFirst ?d (shop_id ?shop)
             (or_else (key (parseCustomerId (req_customerId ?req))) ''default-guest'') = Some ?w"
    by code_simp
  have w: "if isGuest (parseCustomerId (req_customerId ?req))
           then guest_wishlist_findFirst ?d (shop_id ?shop)
                  (or_else (key (parseCustomerId (req_customerId ?req))) ''default-guest'')
                = Some ?w
           else find_customer ?d ?shop (key (parseCustomerId (req_customerId ?req)))
                  = Inr (Some \<lparr> cust_id = 0, cust_shopId = 0, cust_shopCustomerId = 0 \<rparr>)
                \<and> wishlist_findUnique ?d (shop_id ?shop)
                     (cust_id \<lparr> cust_id = 0, cust_shopId = 0, cust_shopCustomerId = 0 \<rparr>)
                   = Some ?w"
    using g l by simp
  have n: "item_findFirst ?d (wl_id ?w) 100 200 = None" by code_simp
  have one: "status (fst (post_items ?e 1000 ?req ?d)) = 201" by code_simp
  have sh: "show_int 100 = ''100''" "show_int 200 = ''200''" by code_simp+
  show ?thesis
    using one sh
      add_twice_conflict [where e = ?e and ?now1.0 = 1000 and ?now2.0 = 2000,
        OF f p s w n prod.collapse [symmetric] prod.collapse [symmetric]]
    by simp
qed

subsection \<open>Migrating a guest wishlist\<close>

text \<open>
  The loop leaves the other tables and the other wishlists alone, adds to the customer's
  wishlist the keys of the guest items, and counts the keys that were not there.
\<close>

lemma item_findFirst_None_keys:
  "item_findFirst d wid pid vid = None \<longleftrightarrow> (pid, vid) \<notin> wishlist_keys d wid"
  by (auto simp: item_findFirst_def wishlist_keys_def wishlist_items_def item_key_def
        find_None_iff)

lemma item_create_tables:
  "shops (snd (item_create d now wid pid vid h)) = shops d"
  "customers (snd (item_create d now wid pid vid h)) = customers d"
  "wishlists (snd (item_create d now wid pid vid h)) = wishlists d"
  "events (snd (item_create d now wid pid vid h)) = events d"
  by (simp_all add: item_create_def Let_def)

lemma item_create_keys:
  "wishlist_keys (snd (item_create d now wid pid vid h)) wid'
     = (if wid' = wid then insert (pid, vid) (wishlist_keys d wid') else wishlist_keys d wid')"
  by (auto simp: item_create_def Let_def wishlist_keys_def wishlist_items_def item_key_def)

lemma item_create_items:
  "wishlist_items (snd (item_create d now wid pid vid h)) wid'
     = wishlist_items d wid'
       @ (if wid' = wid
          then [\<lparr> item_id = nextId d, item_wishlistId = wid, item_productId = pid,
                   item_variantId = vid, item_handle = h, item_createdAt = now \<rparr>]
          else [])"
  by (simp add: item_create_def Let_def wishlist_items_def)

lemma migrate_items_tables:
  "shops (snd (migrate_items now cw gs n d)) = shops d
   \<and> customers (snd (migrate_items now cw gs n d)) = customers d
   \<and> wishlists (snd (migrate_items now cw gs n d)) = wishlists d
   \<and> events (snd (migrate_items now cw gs n d)) = events d"
  by (induction gs arbitrary: n d) (simp_all add: item_create_tables split: option.splits)

lemma migrate_items_other:
  "wid \<noteq> cw \<Longrightarrow> wishlist_items (snd (migrate_items now cw gs n d)) wid = wishlist_items d wid"
  by (induction gs arbitrary: n d) (simp_all add: item_create_items split: option.splits)

lemma migrate_items_keys:
  "wishlist_keys (snd (migrate_items now cw gs n d)) cw
     = wishlist_keys d cw \<union> item_key ` set gs"
proof (induction gs arbitrary: n d)
  case Nil
  show ?case by simp
next
  case (Cons g gs)
  show ?case
  proof (cases "item_findFirst d cw (item_productId g) (item_variantId g)")
    case None
    then show ?thesis
      using Cons by (simp add: item_create_keys item_key_def)
  next
    case (Some a)
    then have "item_key g \<in> wishlist_keys d cw"
      using item_findFirst_None_keys [of d cw "item_productId g" "item_variantId g"]
      by (simp add: item_key_def)
    then show ?thesis
      using Cons Some by auto
  qed
qed

lemma migrate_items_count:
  "fst (migrate_items now cw gs n d) = n + card (item_key ` set gs - wishlist_keys d cw)"
proof (induction gs arbitrary: n d)
  case Nil
  show ?case by simp
next
  case (Cons g gs)
  let ?k = "item_key g"
  show ?case
  proof (cases "item_findFirst d cw (item_productId g) (item_variantId g)")
    case None
    then have notin: "?k \<notin> wishlist_keys d cw"
      using item_findFirst_None_keys [of d cw "item_productId g" "item_variantId g"]
      by (simp add: item_key_def)
    have "insert ?k (item_key ` set gs) - wishlist_keys d cw
            = insert ?k (item_key ` set gs - insert ?k (wishlist_keys d cw))"
      using notin by auto
    then have "card (insert ?k (item_key ` set gs) - wishlist_keys d cw)
                 = Suc (card (item_key ` set gs - insert ?k (wishlist_keys d cw)))"
      by simp
    then show ?thesis
      using Cons None by (simp add: item_create_keys item_key_def)
  next
    case (Some a)
    then have "?k \<in> wishlist_keys d cw"
      using item_findFirst_None_keys [of d cw "item_productId g" "item_variantId g"]
      by (simp add: item_key_def)
    then have "insert ?k (item_key ` set gs) - wishlist_keys d cw
                 = item_key ` set gs - wishlist_keys d cw"
      by auto
    then show ?thesis
      using Cons Some by simp
  qed
qed

lemma migrate_items_length:
  "length (wishlist_items (snd (migrate_items now cw gs n d)) cw) + n
     = length (wishlist_items d cw) + fst (migrate_items now cw gs n d)"
proof (induction gs arbitrary: n d)
  case Nil
  show ?case by simp
next
  case (Cons g gs)
  show ?case
  proof (cases "item_findFirst d cw (item_productId g) (item_variantId g)")
    case None
    let ?d = "snd (item_create d now cw (item_productId g) (item_variantId g) (item_handle g))"
    have "length (wishlist_items ?d cw) = Suc (length (wishlist_items d cw))"
      by (simp add: item_create_items)
    then show ?thesis
      using Cons [of "Suc n" ?d] None by simp
  next
    case (Some a)
    then show ?thesis
      using Cons [of n d] by simp
  qed
qed

lemma distinct_map_eq:
  "distinct (map f xs) \<Longrightarrow> x \<in> set xs \<Longrightarrow> y \<in> set xs \<Longrightarrow> f x = f y \<Longrightarrow> x = y"
  by (meson distinct_map inj_onD)

lemma find_SomeD: "find P xs = Some x \<Longrightarrow> x \<in> set xs \<and> P x"
  by (auto simp: find_Some_iff)

lemma find_append_Some: "find P xs = Some x \<Longrightarrow> find P (xs @ ys) = Some x"
  by (induction xs) (auto split: if_splits)

lemma wishlist_delete_items:
  "wishlist_items (wishlist_delete d wid) wid'
     = (if wid' = wid then [] else wishlist_items d wid')"
  by (auto simp: wishlist_delete_def wishlist_items_def filter_empty_conv
        intro: filter_cong)

lemma event_create_tables:
  "shops (event_create d s c t p) = shops d"
  "customers (event_create d s c t p) = customers d"
  "wishlists (event_create d s c t p) = wishlists d"
  "items (event_create d s c t p) = items d"
  by (simp_all add: event_create_def)

lemma wishlist_items_cong: "items d' = items d \<Longrightarrow> wishlist_items d' wid = wishlist_items d wid"
  by (simp add: wishlist_items_def)

lemma guest_gone:
  assumes "distinct (map wl_shareUUID (wishlists d))"
    and "guest_wishlist_findFirst d sid u = Some gw"
  shows "find (\<lambda>w. wl_shopId w = sid \<and> wl_customerId w = None \<and> wl_shareUUID w = u)
           (filter (\<lambda>w. wl_id w \<noteq> wl_id gw) (wishlists d)) = None"
proof -
  have gw: "gw \<in> set (wishlists d)" "wl_shareUUID gw = u"
    using find_SomeD [OF assms(2) [unfolded guest_wishlist_findFirst_def]] by simp_all
  have "w = gw" if "w \<in> set (wishlists d)" "wl_shareUUID w = u" for w
    using distinct_map_eq [OF assms(1) that(1) gw(1)] that(2) gw(2) by simp
  then show ?thesis
    by (auto simp: find_None_iff)
qed

lemma find_customer_cong:
  "customers d' = customers d \<Longrightarrow> find_customer d' s k = find_customer d s k"
  by (simp add: find_customer_def customer_findFirst_def split: option.splits)

lemma customer_wishlist_result:
  assumes "customer_wishlist now shopRecord customer d = Inr (cw, dc)"
  shows "shops dc = shops d" and "customers dc = customers d" and "items dc = items d"
    and "wishlists dc = wishlists d
         \<or> (wishlists dc = wishlists d @ [cw]
              \<and> wl_shareUUID cw \<notin> set (map wl_shareUUID (wishlists d)))"
  using assms
  by (auto simp: customer_wishlist_def wishlist_create_def Let_def list_ex_iff
        split: option.splits if_splits)

text \<open>
  The three ways through the route for a registered caller whose shop and customer rows
  are found.
\<close>

lemma migrate_registered:
  assumes "body_guestToken req = Some g" and "g \<noteq> []"
    and "\<not> isGuest (parseCustomerId (req_customerId req))"
    and "shop_findUnique d (req_shop req) = Some shopRecord"
    and "find_customer d shopRecord (key (parseCustomerId (req_customerId req)))
           = Inr (Some customer)"
  shows "migrate e now req d = catch500 (merge_guest e now req shopRecord customer g d)"
  using assms by (simp add: migrate_def migrate_try_def Let_def)

lemma merge_guest_nothing:
  assumes "case guest_wishlist_findFirst d (shop_id shopRecord) (replace_first g ''guest_'' [])
           of None \<Rightarrow> True | Some gw \<Rightarrow> wishlist_items d (wl_id gw) = []"
  shows "merge_guest e now req shopRecord customer g d
           = (Returns (respond 200 (NoMigrationBody ''No guest wishlist to migrate'')), d)"
  using assms by (simp add: merge_guest_def Let_def split: option.splits)

lemma merge_guest_some:
  assumes "guest_wishlist_findFirst d (shop_id shopRecord) (replace_first g ''guest_'' [])
             = Some gw"
    and "wishlist_items d (wl_id gw) \<noteq> []"
    and "customer_wishlist now shopRecord customer d = Inr (cw, d1)"
  shows "merge_guest e now req shopRecord customer g d
           = (Returns (respond 200
                (MigratedBody
                   (''Migrated ''
                      @ show_nat (fst (migrate_items now (wl_id cw)
                                        (wishlist_items d (wl_id gw)) 0 d1))
                      @ '' items to your account'')
                   (fst (migrate_items now (wl_id cw) (wishlist_items d (wl_id gw)) 0 d1))
                   (generateStorefrontToken e now (req_shop req) (req_customerId req) 3600))),
              event_create
                (wishlist_delete
                   (snd (migrate_items now (wl_id cw) (wishlist_items d (wl_id gw)) 0 d1))
                   (wl_id gw))
                (shop_id shopRecord) (Some (cust_id customer)) ''migrate''
                (MigratePayload
                   (fst (migrate_items now (wl_id cw) (wishlist_items d (wl_id gw)) 0 d1))
                   (replace_first g ''guest_'' [])))"
  using assms by (simp add: merge_guest_def Let_def split: prod.splits)

lemma merge_guest_throws:
  assumes "guest_wishlist_findFirst d (shop_id shopRecord) (replace_first g ''guest_'' [])
             = Some gw"
    and "wishlist_items d (wl_id gw) \<noteq> []"
    and "customer_wishlist now shopRecord customer d = Inl err"
  shows "merge_guest e now req shopRecord customer g d = (Throws err, d)"
  using assms by (simp add: merge_guest_def Let_def)

text \<open>
  Claim C1. A registered customer migrates a guest wishlist whose items have the keys
  \<open>{A, B}\<close> into their own wishlist, which holds the key \<open>A\<close> only. The response
  is a success with \<open>migratedCount = 1\<close>; afterwards the customer's wishlist holds
  exactly the keys \<open>{A, B}\<close>, with one item more than before, and the guest wishlist
  and its items are gone.
\<close>

theorem migrate_deduplicates:
  assumes wf: "wf_db d"
    and tok: "body_guestToken req = Some g" "g \<noteq> []"
    and reg: "\<not> isGuest (parseCustomerId (req_customerId req))"
    and shop: "shop_findUnique d (req_shop req) = Some shopRecord"
    and cust: "find_customer d shopRecord (key (parseCustomerId (req_customerId req)))
                 = Inr (Some customer)"
    and guest: "guest_wishlist_findFirst d (shop_id shopRecord) (replace_first g ''guest_'' [])
                  = Some gw"
    and own: "wishlist_findUnique d (shop_id shopRecord) (cust_id customer) = Some cw"
    and gkeys: "wishlist_keys d (wl_id gw) = {A, B}" "A \<noteq> B"
    and ckeys: "wishlist_keys d (wl_id cw) = {A}"
    and run: "migrate e now req d = (r, d')"
  shows "status r = 200 \<and> migratedCount_of r = Some 1
         \<and> wishlist_keys d' (wl_id cw) = {A, B}
         \<and> length (wishlist_items d' (wl_id cw)) = Suc (length (wishlist_items d (wl_id cw)))
         \<and> cw \<in> set (wishlists d')
         \<and> wishlist_by_id d' (wl_id gw) = None
         \<and> wishlist_items d' (wl_id gw) = []
         \<and> guest_wishlist_findFirst d' (shop_id shopRecord) (replace_first g ''guest_'' [])
             = None"
proof -
  let ?gs = "wishlist_items d (wl_id gw)"
  let ?m = "migrate_items now (wl_id cw) ?gs 0 d"
  have gw: "gw \<in> set (wishlists d)" "wl_customerId gw = None"
    using find_SomeD [OF guest [unfolded guest_wishlist_findFirst_def]] by simp_all
  have cw: "cw \<in> set (wishlists d)" "wl_customerId cw = Some (cust_id customer)"
    using find_SomeD [OF own [unfolded wishlist_findUnique_def]] by simp_all
  have ids: "wl_id cw \<noteq> wl_id gw"
    using distinct_map_eq [of wl_id "wishlists d" cw gw] wf gw cw
    by (auto simp: wf_db_def)
  have nonempty: "?gs \<noteq> []"
    using gkeys(1) by (auto simp: wishlist_keys_def)
  have cwl: "customer_wishlist now shopRecord customer d = Inr (cw, d)"
    using own by (simp add: customer_wishlist_def)
  have keys_gs: "item_key ` set ?gs = {A, B}"
    using gkeys(1) by (simp add: wishlist_keys_def)
  have "card ({A, B} - {A}) = 1"
    using gkeys(2) by auto
  then have count: "fst ?m = 1"
    by (simp add: migrate_items_count keys_gs ckeys)
  have res: "migrate e now req d
               = catch500 (merge_guest e now req shopRecord customer g d)"
    by (rule migrate_registered [OF tok reg shop cust])
  note mg = merge_guest_some [OF guest nonempty cwl, of e req]
  have r: "r = respond 200 (MigratedBody (''Migrated '' @ show_nat (fst ?m)
                 @ '' items to your account'') (fst ?m)
                 (generateStorefrontToken e now (req_shop req) (req_customerId req) 3600))"
    and d': "d' = event_create (wishlist_delete (snd ?m) (wl_id gw)) (shop_id shopRecord)
                    (Some (cust_id customer)) ''migrate''
                    (MigratePayload (fst ?m) (replace_first g ''guest_'' []))"
    using run by (simp_all add: res mg catch500_def)
  have its: "wishlist_items d' wid
               = (if wid = wl_id gw then [] else wishlist_items (snd ?m) wid)" for wid
    by (simp add: d' wishlist_items_cong [OF event_create_tables(4)] wishlist_delete_items)
  have wls: "wishlists d' = filter (\<lambda>w. wl_id w \<noteq> wl_id gw) (wishlists d)"
    by (simp add: d' event_create_tables wishlist_delete_def migrate_items_tables)
  have "wishlist_keys d' (wl_id cw) = wishlist_keys (snd ?m) (wl_id cw)"
    using ids by (simp add: wishlist_keys_def its)
  then have k: "wishlist_keys d' (wl_id cw) = {A, B}"
    by (auto simp: migrate_items_keys keys_gs ckeys)
  have len: "length (wishlist_items d' (wl_id cw)) = Suc (length (wishlist_items d (wl_id cw)))"
    using migrate_items_length [of now "wl_id cw" ?gs 0 d] ids count
    by (simp add: its)
  have gone: "guest_wishlist_findFirst d' (shop_id shopRecord) (replace_first g ''guest_'' [])
                = None"
    using guest_gone [OF _ guest] wf
    by (simp add: guest_wishlist_findFirst_def wls wf_db_def)
  have byid: "wishlist_by_id d' (wl_id gw) = None"
    by (simp add: wishlist_by_id_def wls find_None_iff)
  have still: "cw \<in> set (wishlists d')"
    using cw(1) ids by (simp add: wls)
  show ?thesis
    using count k len gone byid still
    by (simp add: r respond_def migratedCount_of_def its)
qed

text \<open>
  Guest \<open>g1\<close> holds (100, 200) and (101, 201); customer 12345 holds (100, 200).
\<close>

theorem migrate_deduplicates_witness:
  "migratedCount_of (fst (migrate
      \<lparr> env_JWT_SECRET = Some ''k'', env_SHOPIFY_API_SECRET = Some ''s'' \<rparr> 2000
      \<lparr> req_shop = ''x.example'', req_customerId = Some ''12345'', body_productId = None,
        body_variantId = None, body_handle = None, body_guestToken = Some ''guest_g1'',
        param_id = 0 \<rparr>
      \<lparr> shops = [\<lparr> shop_id = 1, shop_domain = ''x.example'' \<rparr>],
        customers = [\<lparr> cust_id = 2, cust_shopId = 1, cust_shopCustomerId = 12345 \<rparr>],
        wishlists = [\<lparr> wl_id = 3, wl_shopId = 1, wl_customerId = None,
                       wl_shareUUID = ''g1'' \<rparr>,
                     \<lparr> wl_id = 4, wl_shopId = 1, wl_customerId = Some 2,
                       wl_shareUUID = ''customer_2_500'' \<rparr>],
        items = [\<lparr> item_id = 5, item_wishlistId = 3, item_productId = 100,
                   item_variantId = 200, item_handle = ''shoe'', item_createdAt = 10 \<rparr>,
                 \<lparr> item_id = 6, item_wishlistId = 3, item_productId = 101,
                   item_variantId = 201, item_handle = ''hat'', item_createdAt = 11 \<rparr>,
                 \<lparr> item_id = 7, item_wishlistId = 4, item_productId = 100,
                   item_variantId = 200, item_handle = ''shoe'', item_createdAt = 12 \<rparr>],
        events = [], nextId = 8 \<rparr>)) = Some 1
   \<and> wishlist_keys (snd (migrate
      \<lparr> env_JWT_SECRET = Some ''k'', env_SHOPIFY_API_SECRET = Some ''s'' \<rparr> 2000
      \<lparr> req_shop = ''x.example'', req_customerId = Some ''12345'', body_productId = None,
        body_variantId = None, body_handle = None, body_guestToken = Some ''guest_g1'',
        param_id = 0 \<rparr>
      \<lparr> shops = [\<lparr> shop_id = 1, shop_domain = ''x.example'' \<rparr>],
        customers = [\<lparr> cust_id = 2, cust_shopId = 1, cust_shopCustomerId = 12345 \<rparr>],
        wishlists = [\<lparr> wl_id = 3, wl_shopId = 1, wl_customerId = None,
                       wl_shareUUID = ''g1'' \<rparr>,
                     \<lparr> wl_id = 4, wl_shopId = 1, wl_customerId = Some 2,
                       wl_shareUUID = ''customer_2_500'' \<rparr>],
        items = [\<lparr> item_id = 5, item_wishlistId = 3, item_productId = 100,
                   item_variantId = 200, item_handle = ''shoe'', item_createdAt = 10 \<rparr>,
                 \<lparr> item_id = 6, item_wishlistId = 3, item_productId = 101,
                   item_variantId = 201, item_handle = ''hat'', item_createdAt = 11 \<rparr>,
                 \<lparr> item_id = 7, item_wishlistId = 4, item_productId = 100,
                   item_variantId = 200, item_handle = ''shoe'', item_createdAt = 12 \<rparr>],
        events = [], nextId = 8 \<rparr>)) 4 = {(100, 200), (101, 201)}
   \<and> wishlist_by_id (snd (migrate
      \<lparr> env_JWT_SECRET = Some ''k'', env_SHOPIFY_API_SECRET = Some ''s'' \<rparr> 2000
      \<lparr> req_shop = ''x.example'', req_customerId = Some ''12345'', body_productId = None,
        body_variantId = None, body_handle = None, body_guestToken = Some ''guest_g1'',
        param_id = 0 \<rparr>
      \<lparr> shops = [\<lparr> shop_id = 1, shop_domain = ''x.example'' \<rparr>],
        customers = [\<lparr> cust_id = 2, cust_shopId = 1, cust_shopCustomerId = 12345 \<rparr>],
        wishlists = [\<lparr> wl_id = 3, wl_shopId = 1, wl_customerId = None,
                       wl_shareUUID = ''g1'' \<rparr>,
                     \<lparr> wl_id = 4, wl_shopId = 1, wl_customerId = Some 2,
                       wl_shareUUID = ''customer_2_500'' \<rparr>],
        items = [\<lparr> item_id = 5, item_wishlistId = 3, item_productId = 100,
                   item_variantId = 200, item_handle = ''shoe'', item_createdAt = 10 \<rparr>,
                 \<lparr> item_id = 6, item_wishlistId = 3, item_productId = 101,
                   item_variantId = 201, item_handle = ''hat'', item_createdAt = 11 \<rparr>,
                 \<lparr> item_id = 7, item_wishlistId = 4, item_productId = 100,
                   item_variantId = 200, item_handle = ''shoe'', item_createdAt = 12 \<rparr>],
        events = [], nextId = 8 \<rparr>)) 3 = None"
  (is "migratedCount_of (fst (migrate ?e 2000 ?req ?d)) = Some 1 \<and> _")
proof -
  let ?shop = "\<lparr> shop_id = 1, shop_domain = ''x.example'' \<rparr>"
  let ?c = "\<lparr> cust_id = 2, cust_shopId = 1, cust_shopCustomerId = 12345 \<rparr>"
  let ?gw = "\<lparr> wl_id = 3, wl_shopId = 1, wl_customerId = None, wl_shareUUID = ''g1'' \<rparr>"
  let ?cw = "\<lparr> wl_id = 4, wl_shopId = 1, wl_customerId = Some 2,
                wl_shareUUID = ''customer_2_500'' \<rparr>"
  have wf: "wf_db ?d" by code_simp
  have tok: "body_guestToken ?req = Some ''guest_g1''" "''guest_g1'' \<noteq> []" by simp_all
  have reg: "\<not> isGuest (parseCustomerId (req_customerId ?req))" by code_simp
  have shop: "shop_findUnique ?d (req_shop ?req) = Some ?shop" by code_simp
  have cust: "find_customer ?d ?shop (key (parseCustomerId (req_customerId ?req)))
                = Inr (Some ?c)" by code_simp
  have guest: "guest_wishlist_findFirst ?d (shop_id ?shop) (replace_first ''guest_g1'' ''guest_'' [])
                 = Some ?gw" by code_simp
  have own: "wishlist_findUnique ?d (shop_id ?shop) (cust_id ?c) = Some ?cw" by code_simp
  have gk: "wishlist_keys ?d (wl_id ?gw) = {(100, 200), (101, 201)}"
    "(100, 200) \<noteq> ((101, 201) :: int \<times> int)"
    by (simp_all add: wishlist_keys_def wishlist_items_def item_key_def)
  have ck: "wishlist_keys ?d (wl_id ?cw) = {(100, 200)}"
    by (simp add: wishlist_keys_def wishlist_items_def item_key_def)
  show ?thesis
    using migrate_deduplicates [where e = ?e and now = 2000,
        OF wf tok reg shop cust guest own gk ck prod.collapse [symmetric]]
    by simp
qed

text \<open>
  Claim C2, as the code has it. For a registered caller whose shop and customer rows are
  found: when the guest wishlist is absent or has no items, the route answers success
  with \<open>migrated: false\<close> (no migrated count in the response) and leaves the store as
  it was, so that an empty guest wishlist stays; when the guest wishlist has items and the
  call succeeds, the response carries the count and the guest wishlist cannot be found
  afterwards. After a successful first call, a second call with the same guest token is
  the no-op in both cases.
\<close>

theorem migrate_twice:
  assumes wf: "wf_db d"
    and tok: "body_guestToken req = Some g" "g \<noteq> []"
    and reg: "\<not> isGuest (parseCustomerId (req_customerId req))"
    and shop: "shop_findUnique d (req_shop req) = Some shopRecord"
    and cust: "find_customer d shopRecord (key (parseCustomerId (req_customerId req)))
                 = Inr (Some customer)"
    and first: "migrate e now1 req d = (r1, d1)"
    and ok: "status r1 = 200"
    and second: "migrate e now2 req d1 = (r2, d2)"
  shows "((case guest_wishlist_findFirst d (shop_id shopRecord) (replace_first g ''guest_'' [])
           of None \<Rightarrow> True | Some gw \<Rightarrow> wishlist_items d (wl_id gw) = [])
          \<longrightarrow> r1 = \<lparr> status = 200, body = NoMigrationBody ''No guest wishlist to migrate'' \<rparr>
              \<and> d1 = d)
         \<and> (\<not> (case guest_wishlist_findFirst d (shop_id shopRecord)
                      (replace_first g ''guest_'' [])
                 of None \<Rightarrow> True | Some gw \<Rightarrow> wishlist_items d (wl_id gw) = [])
          \<longrightarrow> migratedCount_of r1 \<noteq> None
              \<and> guest_wishlist_findFirst d1 (shop_id shopRecord)
                   (replace_first g ''guest_'' []) = None)
         \<and> r2 = \<lparr> status = 200, body = NoMigrationBody ''No guest wishlist to migrate'' \<rparr>
         \<and> migratedCount_of r2 = None
         \<and> d2 = d1"
proof -
  let ?gid = "replace_first g ''guest_'' []"
  let ?sid = "shop_id shopRecord"
  let ?nothing = "\<lambda>d. case guest_wishlist_findFirst d ?sid ?gid
                       of None \<Rightarrow> True | Some gw \<Rightarrow> wishlist_items d (wl_id gw) = []"
  let ?noop = "\<lparr> status = 200, body = NoMigrationBody ''No guest wishlist to migrate'' \<rparr>"
  have res1: "migrate e now1 req d = catch500 (merge_guest e now1 req shopRecord customer g d)"
    by (rule migrate_registered [OF tok reg shop cust])
  have noop: "migrate e now req d' = (?noop, d')"
    if "shops d' = shops d" "customers d' = customers d" "?nothing d'" for now d'
  proof -
    have "shop_findUnique d' (req_shop req) = Some shopRecord"
      using shop that(1) by (simp add: shop_findUnique_def)
    moreover have "find_customer d' shopRecord (key (parseCustomerId (req_customerId req)))
                     = Inr (Some customer)"
      using cust find_customer_cong [OF that(2)] by simp
    ultimately show ?thesis
      using migrate_registered [OF tok reg, of d' shopRecord customer e now]
        merge_guest_nothing [OF that(3), of e now req customer]
      by (simp add: catch500_def respond_def)
  qed
  show ?thesis
  proof (cases "?nothing d")
    case True
    have 1: "r1 = ?noop" "d1 = d"
      using first noop [OF refl refl True, of now1] by simp_all
    have 2: "r2 = ?noop" "d2 = d1"
      using second noop [OF refl refl True, of now2] 1 by simp_all
    show ?thesis
      using True 1 2 by (simp add: migratedCount_of_def)
  next
    case False
    then obtain gw where guest: "guest_wishlist_findFirst d ?sid ?gid = Some gw"
      and nonempty: "wishlist_items d (wl_id gw) \<noteq> []"
      by (auto split: option.splits)
    show ?thesis
    proof (cases "customer_wishlist now1 shopRecord customer d")
      case (Inl err)
      have "r1 = respond 500 (ErrorBody ''Internal server error'')"
        using first merge_guest_throws [OF guest nonempty Inl, of e req]
        by (simp add: res1 catch500_def)
      then show ?thesis
        using ok by (simp add: respond_def)
    next
      case (Inr p)
      obtain cw dc where p: "p = (cw, dc)" by (cases p)
      note cwl = Inr [unfolded p]
      note tabs = customer_wishlist_result [OF cwl]
      let ?m = "migrate_items now1 (wl_id cw) (wishlist_items d (wl_id gw)) 0 dc"
      note mg = merge_guest_some [OF guest nonempty cwl, of e req]
      have r1': "r1 = respond 200 (MigratedBody (''Migrated '' @ show_nat (fst ?m)
                   @ '' items to your account'') (fst ?m)
                   (generateStorefrontToken e now1 (req_shop req) (req_customerId req) 3600))"
        and d1: "d1 = event_create (wishlist_delete (snd ?m) (wl_id gw)) ?sid
                        (Some (cust_id customer)) ''migrate'' (MigratePayload (fst ?m) ?gid)"
        using first by (simp_all add: res1 mg catch500_def)
      have r1: "migratedCount_of r1 = Some (fst ?m)"
        by (simp add: r1' respond_def migratedCount_of_def)
      have uu: "distinct (map wl_shareUUID (wishlists dc))"
        using wf tabs(4) by (auto simp: wf_db_def)
      have guest_dc: "guest_wishlist_findFirst dc ?sid ?gid = Some gw"
        using guest tabs(4) by (auto simp: guest_wishlist_findFirst_def find_append_Some)
      have wls: "wishlists d1 = filter (\<lambda>w. wl_id w \<noteq> wl_id gw) (wishlists dc)"
        by (simp add: d1 event_create_tables wishlist_delete_def migrate_items_tables)
      have gone: "guest_wishlist_findFirst d1 ?sid ?gid = None"
        using guest_gone [OF uu guest_dc]
        by (simp add: guest_wishlist_findFirst_def wls)
      have same: "shops d1 = shops d" "customers d1 = customers d"
        by (simp_all add: d1 event_create_tables wishlist_delete_def migrate_items_tables tabs)
      have 2: "r2 = ?noop" "d2 = d1"
        using second noop [OF same, of now2] gone by simp_all
      show ?thesis
        using False r1 gone 2 by (simp add: migratedCount_of_def)
    qed
  qed
qed

text \<open>
  Customer 12345 migrates the one-item wishlist of guest \<open>g1\<close>, twice.
\<close>

theorem migrate_twice_witness:
  "status (fst (migrate
      \<lparr> env_JWT_SECRET = Some ''k'', env_SHOPIFY_API_SECRET = Some ''s'' \<rparr> 2000
      \<lparr> req_shop = ''x.example'', req_customerId = Some ''12345'', body_productId = None,
        body_variantId = None, body_handle = None, body_guestToken = Some ''guest_g1'',
        param_id = 0 \<rparr>
      \<lparr> shops = [\<lparr> shop_id = 1, shop_domain = ''x.example'' \<rparr>],
        customers = [\<lparr> cust_id = 2, cust_shopId = 1, cust_shopCustomerId = 12345 \<rparr>],
        wishlists = [\<lparr> wl_id = 3, wl_shopId = 1, wl_customerId = None,
                       wl_shareUUID = ''g1'' \<rparr>],
        items = [\<lparr> item_id = 4, item_wishlistId = 3, item_productId = 100,
                   item_variantId = 200, item_handle = ''shoe'', item_createdAt = 10 \<rparr>],
        events = [], nextId = 5 \<rparr>)) = 200
   \<and> migrate \<lparr> env_JWT_SECRET = Some ''k'', env_SHOPIFY_API_SECRET = Some ''s'' \<rparr> 3000
      \<lparr> req_shop = ''x.example'', req_customerId = Some ''12345'', body_productId = None,
        body_variantId = None, body_handle = None, body_guestToken = Some ''guest_g1'',
        param_id = 0 \<rparr>
      (snd (migrate
        \<lparr> env_JWT_SECRET = Some ''k'', env_SHOPIFY_API_SECRET = Some ''s'' \<rparr> 2000
        \<lparr> req_shop = ''x.example'', req_customerId = Some ''12345'', body_productId = None,
          body_variantId = None, body_handle = None, body_guestToken = Some ''guest_g1'',
          param_id = 0 \<rparr>
        \<lparr> shops = [\<lparr> shop_id = 1, shop_domain = ''x.example'' \<rparr>],
          customers = [\<lparr> cust_id = 2, cust_shopId = 1, cust_shopCustomerId = 12345 \<rparr>],
          wishlists = [\<lparr> wl_id = 3, wl_shopId = 1, wl_customerId = None,
                         wl_shareUUID = ''g1'' \<rparr>],
          items = [\<lparr> item_id = 4, item_wishlistId = 3, item_productId = 100,
                     item_variantId = 200, item_handle = ''shoe'', item_createdAt = 10 \<rparr>],
          events = [], nextId = 5 \<rparr>))
     = (\<lparr> status = 200, body = NoMigrationBody ''No guest wishlist to migrate'' \<rparr>,
        snd (migrate
          \<lparr> env_JWT_SECRET = Some ''k'', env_SHOPIFY_API_SECRET = Some ''s'' \<rparr> 2000
          \<lparr> req_shop = ''x.example'', req_customerId = Some ''12345'', body_productId = None,
            body_variantId = None, body_handle = None, body_guestToken = Some ''guest_g1'',
            param_id = 0 \<rparr>
          \<lparr> shops = [\<lparr> shop_id = 1, shop_domain = ''x.example'' \<rparr>],
            customers = [\<lparr> cust_id = 2, cust_shopId = 1, cust_shopCustomerId = 12345 \<rparr>],
            wishlists = [\<lparr> wl_id = 3, wl_shopId = 1, wl_customerId = None,
                           wl_shareUUID = ''g1'' \<rparr>],
            items = [\<lparr> item_id = 4, item_wishlistId = 3, item_productId = 100,
                       item_variantId = 200, item_handle = ''shoe'', item_createdAt = 10 \<rparr>],
            events = [], nextId = 5 \<rparr>))
   \<and> guest_wishlist_findFirst (snd (migrate
        \<lparr> env_JWT_SECRET = Some ''k'', env_SHOPIFY_API_SECRET = Some ''s'' \<rparr> 2000
        \<lparr> req_shop = ''x.example'', req_customerId = Some ''12345'', body_productId = None,
          body_variantId = None, body_handle = None, body_guestToken = Some ''guest_g1'',
          param_id = 0 \<rparr>
        \<lparr> shops = [\<lparr> shop_id = 1, shop_domain = ''x.example'' \<rparr>],
          customers = [\<lparr> cust_id = 2, cust_shopId = 1, cust_shopCustomerId = 12345 \<rparr>],
          wishlists = [\<lparr> wl_id = 3, wl_shopId = 1, wl_customerId = None,
                         wl_shareUUID = ''g1'' \<rparr>],
          items = [\<lparr> item_id = 4, item_wishlistId = 3, item_productId = 100,
                     item_variantId = 200, item_handle = ''shoe'', item_createdAt = 10 \<rparr>],
          events = [], nextId = 5 \<rparr>)) 1 ''g1'' = None"
  (is "status (fst (migrate ?e 2000 ?req ?d)) = 200 \<and> _")
proof -
  let ?shop = "\<lparr> shop_id = 1, shop_domain = ''x.example'' \<rparr>"
  let ?c = "\<lparr> cust_id = 2, cust_shopId = 1, cust_shopCustomerId = 12345 \<rparr>"
  have wf: "wf_db ?d" by code_simp
  have tok: "body_guestToken ?req = Some ''guest_g1''" "''guest_g1'' \<noteq> []" by simp_all
  have reg: "\<not> isGuest (parseCustomerId (req_customerId ?req))" by code_simp
  have shop: "shop_findUnique ?d (req_shop ?req) = Some ?shop" by code_simp
  have cust: "find_customer ?d ?shop (key (parseCustomerId (req_customerId ?req)))
                = Inr (Some ?c)" by code_simp
  have ok: "status (fst (migrate ?e 2000 ?req ?d)) = 200" by code_simp
  have gid: "replace_first ''guest_g1'' ''guest_'' [] = ''g1''" by code_simp
  have before: "\<not> (case guest_wishlist_findFirst ?d (shop_id ?shop)
                         (replace_first ''guest_g1'' ''guest_'' [])
                  of None \<Rightarrow> True | Some gw \<Rightarrow> wishlist_items ?d (wl_id gw) = [])"
    by code_simp
  show ?thesis
    using ok gid before
      migrate_twice [where e = ?e and ?now1.0 = 2000 and ?now2.0 = 3000,
        OF wf tok reg shop cust prod.collapse [symmetric] ok prod.collapse [symmetric]]
    by (simp add: prod_eq_iff)
qed

text \<open>
  With an empty guest wishlist the first call answers without a migrated count, and the
  guest wishlist is still there afterwards.
\<close>

theorem migrate_empty_guest_counterexample:
  "migrate \<lparr> env_JWT_SECRET = Some ''k'', env_SHOPIFY_API_SECRET = Some ''s'' \<rparr> 2000
      \<lparr> req_shop = ''x.example'', req_customerId = Some ''12345'', body_productId = None,
        body_variantId = None, body_handle = None, body_guestToken = Some ''guest_g1'',
        param_id = 0 \<rparr>
      \<lparr> shops = [\<lparr> shop_id = 1, shop_domain = ''x.example'' \<rparr>],
        customers = [\<lparr> cust_id = 2, cust_shopId = 1, cust_shopCustomerId = 12345 \<rparr>],
        wishlists = [\<lparr> wl_id = 3, wl_shopId = 1, wl_customerId = None,
                       wl_shareUUID = ''g1'' \<rparr>],
        items = [], events = [], nextId = 4 \<rparr>
     = (\<lparr> status = 200, body = NoMigrationBody ''No guest wishlist to migrate'' \<rparr>,
        \<lparr> shops = [\<lparr> shop_id = 1, shop_domain = ''x.example'' \<rparr>],
          customers = [\<lparr> cust_id = 2, cust_shopId = 1, cust_shopCustomerId = 12345 \<rparr>],
          wishlists = [\<lparr> wl_id = 3, wl_shopId = 1, wl_customerId = None,
                         wl_shareUUID = ''g1'' \<rparr>],
          items = [], events = [], nextId = 4 \<rparr>)
   \<and> migratedCount_of \<lparr> status = 200, body = NoMigrationBody ''No guest wishlist to migrate'' \<rparr>
       = None
   \<and> guest_wishlist_findFirst
        \<lparr> shops = [\<lparr> shop_id = 1, shop_domain = ''x.example'' \<rparr>],
          customers = [\<lparr> cust_id = 2, cust_shopId = 1, cust_shopCustomerId = 12345 \<rparr>],
          wishlists = [\<lparr> wl_id = 3, wl_shopId = 1, wl_customerId = None,
                         wl_shareUUID = ''g1'' \<rparr>],
          items = [], events = [], nextId = 4 \<rparr> 1 ''g1''
       = Some \<lparr> wl_id = 3, wl_shopId = 1, wl_customerId = None, wl_shareUUID = ''g1'' \<rparr>"
  by code_simp


end
